theory Spec2Isabelle
  imports Complex_Main "HOL-Library.Char_ord" "HOL-Library.List_Lexorder"
begin

section \<open>Data model\<close>

text \<open>
  The backend keeps one pandas table in \<^verbatim>\<open>app.state.data\<close>. A table is modelled by its
  ordered column names and its rows in stored order; a row is the dictionary from column
  name to cell that \<^verbatim>\<open>to_dict(orient="records")\<close> shows.

  A cell is a missing value (\<^verbatim>\<open>NaN\<close>, which is also the float nan, or \<^verbatim>\<open>NaT\<close> in a
  timestamp column), an integer of an int64 column, a float (a finite one, given by the
  rational it denotes, or one of the two infinities), a string, or a timestamp. A timestamp
  is a calendar date with the time of the day (year, month, day, nanoseconds since
  midnight), compared lexicographically.

  The model describes the values that the endpoint functions of \<^verbatim>\<open>main.py\<close> return or the
  HTTP error they raise; how the web framework serialises a returned value is outside it.
\<close>

type_synonym timestamp = "nat \<times> nat \<times> nat \<times> nat"

datatype cell =
  NaN | NaT | Int64 int | Num rat | PosInf | NegInf | Str string | TS timestamp

type_synonym row = "string \<rightharpoonup> cell"

record dataframe =
  columns :: "string list"
  rows :: "row list"

datatype exn =
  KeyError string | ReadError | TypeError | ValueError | OverflowError | HTTPException nat

definition DataFrame_empty :: dataframe where
  "DataFrame_empty = \<lparr>columns = [], rows = []\<rparr>"

definition cell_of :: "row \<Rightarrow> string \<Rightarrow> cell" where
  "cell_of r c = (case r c of Some v \<Rightarrow> v | None \<Rightarrow> NaN)"

text \<open>\<^verbatim>\<open>df[name]\<close>: the column as a list of cells, \<^verbatim>\<open>KeyError\<close> when the name is unknown.\<close>

definition column :: "dataframe \<Rightarrow> string \<Rightarrow> cell list" where
  "column df name = map (\<lambda>r. cell_of r name) (rows df)"

definition getitem :: "dataframe \<Rightarrow> string \<Rightarrow> exn + cell list" where
  "getitem df name =
     (if name \<in> set (columns df) then Inr (column df name) else Inl (KeyError name))"

text \<open>\<^verbatim>\<open>df[name] = values\<close>: replaces the column in place, or appends a new one.\<close>

definition setitem_frame :: "dataframe \<Rightarrow> string \<Rightarrow> cell list \<Rightarrow> dataframe" where
  "setitem_frame df name vals =
     \<lparr>columns = (if name \<in> set (columns df) then columns df else columns df @ [name]),
      rows = map (\<lambda>(r, v). r(name \<mapsto> v)) (zip (rows df) vals)\<rparr>"

text \<open>Python's \<^verbatim>\<open>xs[start:stop]\<close>, which is what \<^verbatim>\<open>iloc[start:stop]\<close> applies to the rows.\<close>

definition py_slice :: "int \<Rightarrow> int \<Rightarrow> 'a list \<Rightarrow> 'a list" where
  "py_slice start stop xs =
     (let n = int (length xs);
          lo = (if start < 0 then max (start + n) 0 else min start n);
          hi = (if stop < 0 then max (stop + n) 0 else min stop n)
      in take (nat (hi - lo)) (drop (nat lo) xs))"

definition iloc :: "dataframe \<Rightarrow> int \<Rightarrow> int \<Rightarrow> dataframe" where
  "iloc df start stop = df\<lparr>rows := py_slice start stop (rows df)\<rparr>"

text \<open>\<^verbatim>\<open>to_dict(orient="records")\<close>: one ordered dictionary per row, keyed by the columns.\<close>

definition to_dict_records :: "dataframe \<Rightarrow> (string \<times> cell) list list" where
  "to_dict_records df = map (\<lambda>r. map (\<lambda>c. (c, cell_of r c)) (columns df)) (rows df)"

text \<open>
  What the model assumes of a stored table: a table with rows has the three columns that
  loading converts, with a timestamp or \<^verbatim>\<open>NaT\<close> in every \<^verbatim>\<open>Date\<close> cell and a number in every
  \<^verbatim>\<open>Total\<close> and \<^verbatim>\<open>Quantity\<close> cell. Loading establishes this and \<^verbatim>\<open>add_column\<close> keeps it
  (\<open>startup_well_typed\<close> and \<open>add_column_well_typed\<close> below), so it holds of every table the
  program can store. Comparisons and sums are modelled for such tables.
\<close>

definition number :: "cell \<Rightarrow> bool" where
  "number c =
     (case c of Int64 n \<Rightarrow> True | Num q \<Rightarrow> True | PosInf \<Rightarrow> True | NegInf \<Rightarrow> True
      | _ \<Rightarrow> False)"

definition dated :: "cell \<Rightarrow> bool" where
  "dated c = (case c of TS t \<Rightarrow> True | NaT \<Rightarrow> True | _ \<Rightarrow> False)"

definition well_typed :: "dataframe \<Rightarrow> bool" where
  "well_typed df =
     (rows df = []
      \<or> (''Date'' \<in> set (columns df) \<and> ''Total'' \<in> set (columns df)
         \<and> ''Quantity'' \<in> set (columns df)
         \<and> (\<forall>r \<in> set (rows df).
               dated (cell_of r ''Date'') \<and> number (cell_of r ''Total'')
               \<and> number (cell_of r ''Quantity''))))"

section \<open>The store: the shared table and the copies made by requests\<close>

text \<open>
  \<^verbatim>\<open>app.state.data\<close> is one mutable object shared by all requests; \<^verbatim>\<open>copy()\<close> makes a new
  object. A reference names either the shared table or a copy allocated by a request.
\<close>

datatype ref = AppStateData | Local nat

record store =
  app_state_data :: dataframe
  locals :: "dataframe list"

fun deref :: "store \<Rightarrow> ref \<Rightarrow> dataframe" where
  "deref s AppStateData = app_state_data s"
| "deref s (Local i) = (if i < length (locals s) then locals s ! i else DataFrame_empty)"

fun assign :: "store \<Rightarrow> ref \<Rightarrow> dataframe \<Rightarrow> store" where
  "assign s AppStateData df = s\<lparr>app_state_data := df\<rparr>"
| "assign s (Local i) df = s\<lparr>locals := (locals s)[i := df]\<rparr>"

definition copy :: "store \<Rightarrow> ref \<Rightarrow> ref \<times> store" where
  "copy s r = (Local (length (locals s)), s\<lparr>locals := locals s @ [deref s r]\<rparr>)"

definition setitem :: "store \<Rightarrow> ref \<Rightarrow> string \<Rightarrow> cell list \<Rightarrow> store" where
  "setitem s r name vals = assign s r (setitem_frame (deref s r) name vals)"

section \<open>The table library\<close>

text \<open>
  The table library and its number arithmetic are not part of the program. What they
  decide and the source does not is a parameter of the model, so that every property
  below holds whatever the library does there:

  \<^item> \<open>to_numeric\<close>: the number that \<^verbatim>\<open>pd.to_numeric\<close> reads in a cell of a column that does not
    hold numbers only (the column is given too: whether \<^verbatim>\<open>"1"\<close> becomes an integer or a float
    depends on the other cells);
  \<^item> \<open>to_datetime_other\<close>: how \<^verbatim>\<open>pd.to_datetime\<close> without a format reads a string of a shape
    the model does not fix; the result is a timestamp without a time zone, or one with a
    time zone (given by its wall time);
  \<^item> \<open>sort_values\<close>: how the sort inside \<^verbatim>\<open>value_counts\<close> orders the table of counts;
  \<^item> \<open>Series_sum\<close>, \<open>Series_mean\<close>, \<open>groupby_sum\<close>, \<open>groupby_mean\<close>: the sum and the mean of a
    list of numbers in float64 arithmetic, for a column and for a group (the result depends
    on the order of the additions and rounds; it can be an infinity or nan);
  \<^item> \<open>true_divide\<close>, \<open>round_2\<close>, \<open>float_of_int\<close>: the float64 quotient of a float by a row
    count, \<^verbatim>\<open>round(2)\<close> of a float, and the float nearest to an integer beyond \<open>2\<^sup>5\<^sup>3\<close>;
  \<^item> \<open>compare_empty_raises\<close>: whether comparing the \<^verbatim>\<open>Date\<close> column of a table without rows
    with a timestamp that has a time zone raises (it does for a datetime column and does not
    for an object column; the model's table does not record which of the two it is).
\<close>

datatype stamp = Naive timestamp | Aware timestamp

record library =
  to_numeric :: "cell list \<Rightarrow> cell \<Rightarrow> cell"
  to_datetime_other :: "string \<Rightarrow> stamp option"
  sort_values :: "(cell \<times> nat) list \<Rightarrow> (cell \<times> nat) list"
  Series_sum :: "cell list \<Rightarrow> cell"
  Series_mean :: "cell list \<Rightarrow> cell"
  groupby_sum :: "cell list \<Rightarrow> cell"
  groupby_mean :: "cell list \<Rightarrow> cell"
  true_divide :: "cell \<Rightarrow> nat \<Rightarrow> cell"
  round_2 :: "cell \<Rightarrow> cell"
  float_of_int :: "int \<Rightarrow> cell"
  compare_empty_raises :: bool

subsection \<open>Dates\<close>

definition is_digit :: "char \<Rightarrow> bool" where
  "is_digit c = (c \<in> set ''0123456789'')"

definition digit_val :: "char \<Rightarrow> nat" where
  "digit_val c = of_char c - 48"

definition digits_val :: "string \<Rightarrow> nat" where
  "digits_val s = foldl (\<lambda>n c. 10 * n + digit_val c) 0 s"

fun split_on :: "char \<Rightarrow> string \<Rightarrow> string list" where
  "split_on d [] = [[]]"
| "split_on d (c # cs) =
     (if c = d then [] # split_on d cs
      else (case split_on d cs of [] \<Rightarrow> [[c]] | w # ws \<Rightarrow> (c # w) # ws))"

fun ts_le :: "timestamp \<Rightarrow> timestamp \<Rightarrow> bool" where
  "ts_le (y1, m1, d1, t1) (y2, m2, d2, t2) =
     (y1 < y2 \<or> (y1 = y2 \<and> (m1 < m2 \<or> (m1 = m2 \<and> (d1 < d2 \<or> (d1 = d2 \<and> t1 \<le> t2))))))"

definition is_leap :: "nat \<Rightarrow> bool" where
  "is_leap y = (y mod 4 = 0 \<and> (y mod 100 \<noteq> 0 \<or> y mod 400 = 0))"

definition days_in_month :: "nat \<Rightarrow> nat \<Rightarrow> nat" where
  "days_in_month y m =
     (if m = 2 then (if is_leap y then 29 else 28)
      else if m = 4 \<or> m = 6 \<or> m = 9 \<or> m = 11 then 30 else 31)"

text \<open>
  A timestamp exists for a valid calendar date inside the range of 64-bit nanosecond
  timestamps (midnight of 1677-09-22 up to midnight of 2262-04-11); anything else is an
  error, which \<^verbatim>\<open>errors='coerce'\<close> turns into \<^verbatim>\<open>NaT\<close>.
\<close>

definition Timestamp :: "nat \<Rightarrow> nat \<Rightarrow> nat \<Rightarrow> timestamp option" where
  "Timestamp y m d =
     (if 1 \<le> m \<and> m \<le> 12 \<and> 1 \<le> d \<and> d \<le> days_in_month y m
         \<and> ts_le (1677, 9, 22, 0) (y, m, d, 0) \<and> ts_le (y, m, d, 0) (2262, 4, 11, 0)
      then Some (y, m, d, 0) else None)"

text \<open>
  The directives of \<^verbatim>\<open>format='%d/%m/%Y'\<close> as the strptime regular expressions define them:
  \<^verbatim>\<open>%d\<close> is \<^verbatim>\<open>3[0-1]|[1-2]\d|0[1-9]|[1-9]| [1-9]\<close>, \<^verbatim>\<open>%m\<close> is \<^verbatim>\<open>1[0-2]|0[1-9]|[1-9]\<close>,
  \<^verbatim>\<open>%Y\<close> is four digits, and the whole string has to match.
\<close>

definition day_token :: "string \<Rightarrow> bool" where
  "day_token t =
     (case t of
        [a] \<Rightarrow> is_digit a \<and> a \<noteq> CHR ''0''
      | [a, b] \<Rightarrow>
          (a = CHR ''3'' \<and> (b = CHR ''0'' \<or> b = CHR ''1''))
          \<or> ((a = CHR ''1'' \<or> a = CHR ''2'') \<and> is_digit b)
          \<or> ((a = CHR ''0'' \<or> a = CHR '' '') \<and> is_digit b \<and> b \<noteq> CHR ''0'')
      | _ \<Rightarrow> False)"

definition month_token :: "string \<Rightarrow> bool" where
  "month_token t =
     (case t of
        [a] \<Rightarrow> is_digit a \<and> a \<noteq> CHR ''0''
      | [a, b] \<Rightarrow>
          (a = CHR ''1'' \<and> (b = CHR ''0'' \<or> b = CHR ''1'' \<or> b = CHR ''2''))
          \<or> (a = CHR ''0'' \<and> is_digit b \<and> b \<noteq> CHR ''0'')
      | _ \<Rightarrow> False)"

definition year_token :: "string \<Rightarrow> bool" where
  "year_token t = (length t = 4 \<and> list_all is_digit t)"

definition token_val :: "string \<Rightarrow> nat" where
  "token_val t = digits_val (filter is_digit t)"

text \<open>\<^verbatim>\<open>pd.to_datetime(x, format='%d/%m/%Y')\<close> on one string.\<close>

definition strptime_d_m_Y :: "string \<Rightarrow> timestamp option" where
  "strptime_d_m_Y s =
     (case split_on CHR ''/'' s of
        [d, m, y] \<Rightarrow>
          if day_token d \<and> month_token m \<and> year_token y
          then Timestamp (token_val y) (token_val m) (token_val d) else None
      | _ \<Rightarrow> None)"

text \<open>
  \<^verbatim>\<open>pd.to_datetime(x)\<close> with no format lets the library infer it. The model fixes the
  reading of two shapes, both without a time zone: an ISO date \<^verbatim>\<open>YYYY-MM-DD\<close>, and a slash
  date of two numbers and a four-digit year, which is read month first unless the first
  number exceeds 12 (\<^verbatim>\<open>dayfirst=False\<close>). The empty string is null. What the library makes
  of any other string is the parameter \<open>to_datetime_other\<close>.
\<close>

definition num_token :: "string \<Rightarrow> bool" where
  "num_token t = ((length t = 1 \<or> length t = 2) \<and> list_all is_digit t)"

definition parse_iso :: "string \<Rightarrow> timestamp option" where
  "parse_iso s =
     (case split_on CHR ''-'' s of
        [y, m, d] \<Rightarrow>
          if year_token y \<and> length m = 2 \<and> list_all is_digit m
             \<and> length d = 2 \<and> list_all is_digit d
          then Timestamp (token_val y) (token_val m) (token_val d) else None
      | _ \<Rightarrow> None)"

definition known_date :: "string \<Rightarrow> timestamp option" where
  "known_date s =
     (case split_on CHR ''/'' s of
        [a, b, y] \<Rightarrow>
          if num_token a \<and> num_token b \<and> year_token y
          then (if 12 < token_val a then Timestamp (token_val y) (token_val b) (token_val a)
                else Timestamp (token_val y) (token_val a) (token_val b))
          else None
      | _ \<Rightarrow> parse_iso s)"

definition to_datetime_infer :: "library \<Rightarrow> string \<Rightarrow> stamp option" where
  "to_datetime_infer lib s =
     (case known_date s of
        Some t \<Rightarrow> Some (Naive t)
      | None \<Rightarrow> if s = [] then None else to_datetime_other lib s)"

definition wall_time :: "stamp \<Rightarrow> timestamp" where
  "wall_time b = (case b of Naive t \<Rightarrow> t | Aware t \<Rightarrow> t)"

text \<open>
  \<^verbatim>\<open>pd.to_datetime(..., errors='coerce')\<close> on a cell: a timestamp stays, a string is parsed,
  a missing or unparsable value becomes \<^verbatim>\<open>NaT\<close>. (A number never matches the load format;
  the Date column of a stored table holds no numbers.)
\<close>

definition to_datetime_coerce :: "(string \<Rightarrow> timestamp option) \<Rightarrow> cell \<Rightarrow> cell" where
  "to_datetime_coerce parse c =
     (case c of
        TS t \<Rightarrow> TS t
      | Str s \<Rightarrow> (case parse s of Some t \<Rightarrow> TS t | None \<Rightarrow> NaT)
      | _ \<Rightarrow> NaT)"

definition digit_char :: "nat \<Rightarrow> char" where
  "digit_char n = ''0123456789'' ! (n mod 10)"

text \<open>\<^verbatim>\<open>.dt.strftime('%Y-%m')\<close>: the month label of a timestamp, missing for \<^verbatim>\<open>NaT\<close>.\<close>

definition strftime_Y_m :: "cell \<Rightarrow> cell" where
  "strftime_Y_m c =
     (case c of
        TS (y, m, d, t) \<Rightarrow>
          Str ([digit_char (y div 1000), digit_char (y div 100), digit_char (y div 10),
                digit_char y] @ ''-'' @ [digit_char (m div 10), digit_char m])
      | _ \<Rightarrow> NaN)"

subsection \<open>Numbers\<close>

definition isna :: "cell \<Rightarrow> bool" where
  "isna c = (c = NaN \<or> c = NaT)"

text \<open>A numeric result of the library is a number or nan.\<close>

definition numeric :: "cell \<Rightarrow> cell" where
  "numeric c = (if number c then c else NaN)"

text \<open>
  \<^verbatim>\<open>pd.to_numeric(..., errors='coerce')\<close> on a column: a column of numbers and missing values
  stays as it is; in any other column each cell gets the number the library reads in it,
  and \<^verbatim>\<open>NaN\<close> when it reads none.
\<close>

definition to_numeric_coerce :: "library \<Rightarrow> cell list \<Rightarrow> cell list" where
  "to_numeric_coerce lib col =
     (if list_all (\<lambda>c. number c \<or> c = NaN) col then col
      else map (\<lambda>c. numeric (to_numeric lib col c)) col)"

text \<open>\<^verbatim>\<open>Series.fillna(0)\<close> on a numeric column (a column with a missing value is a float one).\<close>

definition fillna_0 :: "cell \<Rightarrow> cell" where
  "fillna_0 c = (if isna c then Num 0 else c)"

text \<open>
  \<^verbatim>\<open>DataFrame.fillna('')\<close>: a missing cell becomes the empty string. In a timestamp column
  the empty string is itself read as \<^verbatim>\<open>NaT\<close>, so a null date stays null.
\<close>

definition fillna_str :: "dataframe \<Rightarrow> dataframe" where
  "fillna_str df =
     df\<lparr>rows := map (\<lambda>r c. if c \<in> set (columns df)
                               then Some (if cell_of r c = NaN then Str [] else cell_of r c)
                               else r c) (rows df)\<rparr>"

text \<open>
  \<^verbatim>\<open>Series.sum()\<close> skips missing cells. Without any value it is 0. Over int64 values the
  additions wrap around, so the result is the exact sum reduced into the int64 range,
  whatever the order of the additions. Otherwise it is the library's float64 sum.
\<close>

definition is_int64 :: "cell \<Rightarrow> bool" where
  "is_int64 c = (case c of Int64 n \<Rightarrow> - (2 ^ 63) \<le> n \<and> n < 2 ^ 63 | _ \<Rightarrow> False)"

definition int_of :: "cell \<Rightarrow> int" where
  "int_of c = (case c of Int64 n \<Rightarrow> n | _ \<Rightarrow> 0)"

definition wrap_int64 :: "int \<Rightarrow> int" where
  "wrap_int64 n = (n + 2 ^ 63) mod 2 ^ 64 - 2 ^ 63"

definition series_sum :: "library \<Rightarrow> cell list \<Rightarrow> cell" where
  "series_sum lib col =
     (let vals = filter (\<lambda>c. \<not> isna c) col
      in if list_all is_int64 vals then Int64 (wrap_int64 (sum_list (map int_of vals)))
         else numeric (Series_sum lib vals))"

text \<open>\<^verbatim>\<open>Series.mean()\<close> skips missing cells; without any value it is nan.\<close>

definition series_mean :: "library \<Rightarrow> cell list \<Rightarrow> cell" where
  "series_mean lib col =
     (let vals = filter (\<lambda>c. \<not> isna c) col
      in if vals = [] then NaN else numeric (Series_mean lib vals))"

definition series_count :: "cell list \<Rightarrow> nat" where
  "series_count col = length (filter (\<lambda>c. \<not> isna c) col)"

text \<open>The aggregates of one group of \<^verbatim>\<open>groupby\<close>, and \<^verbatim>\<open>round(2)\<close> of a float.\<close>

definition group_sum :: "library \<Rightarrow> cell list \<Rightarrow> cell" where
  "group_sum lib g = numeric (groupby_sum lib g)"

definition group_mean :: "library \<Rightarrow> cell list \<Rightarrow> cell" where
  "group_mean lib g = numeric (groupby_mean lib g)"

definition round2 :: "library \<Rightarrow> cell \<Rightarrow> cell" where
  "round2 lib c = numeric (round_2 lib c)"

text \<open>
  Python's \<^verbatim>\<open>float(x)\<close> on a number: a float stays; an integer up to \<open>2\<^sup>5\<^sup>3\<close> in size is a
  float exactly, a bigger one goes to the nearest float, which the library gives.
\<close>

definition py_float :: "library \<Rightarrow> cell \<Rightarrow> cell" where
  "py_float lib c =
     (case c of
        Int64 n \<Rightarrow>
          if \<bar>n\<bar> \<le> 2 ^ 53 then Num (of_int n)
          else (case float_of_int lib n of Num q \<Rightarrow> Num q | _ \<Rightarrow> Num (of_int n))
      | _ \<Rightarrow> numeric c)"

text \<open>
  Python's \<^verbatim>\<open>int(x)\<close> on a number truncates toward zero; on an infinity it raises
  \<^verbatim>\<open>OverflowError\<close>, on nan \<^verbatim>\<open>ValueError\<close>.
\<close>

definition toward_zero :: "rat \<Rightarrow> int" where
  "toward_zero q = (if 0 \<le> q then \<lfloor>q\<rfloor> else \<lceil>q\<rceil>)"

definition py_int :: "cell \<Rightarrow> exn + int" where
  "py_int c =
     (case c of
        Int64 n \<Rightarrow> Inr n
      | Num q \<Rightarrow> Inr (toward_zero q)
      | PosInf \<Rightarrow> Inl OverflowError
      | NegInf \<Rightarrow> Inl OverflowError
      | _ \<Rightarrow> Inl ValueError)"

text \<open>
  \<^verbatim>\<open>x / n\<close> for a sum \<open>x\<close> and a row count \<open>n\<close>: true division converts an integer sum to
  float first; the quotient is the library's.
\<close>

definition truediv :: "library \<Rightarrow> cell \<Rightarrow> nat \<Rightarrow> cell" where
  "truediv lib x n = numeric (true_divide lib (py_float lib x) n)"

text \<open>
  The order of floats: \<open>-inf\<close> below every finite float below \<open>inf\<close>; a comparison with
  nan is false.
\<close>

definition float_key :: "cell \<Rightarrow> (int \<times> rat) option" where
  "float_key c =
     (case c of Num q \<Rightarrow> Some (0, q) | PosInf \<Rightarrow> Some (1, 0) | NegInf \<Rightarrow> Some (- 1, 0)
      | _ \<Rightarrow> None)"

definition float_le :: "cell \<Rightarrow> cell \<Rightarrow> bool" where
  "float_le a b =
     (case (float_key a, float_key b) of
        (Some (i, x), Some (j, y)) \<Rightarrow> i < j \<or> (i = j \<and> x \<le> y)
      | _ \<Rightarrow> False)"

section \<open>Loading\<close>

text \<open>
  \<^verbatim>\<open>startup_db_client\<close>. The argument is what \<^verbatim>\<open>pd.read_csv\<close> returned (\<open>None\<close> when it
  raised). Each of the three conversions reads its column, so a missing column raises
  \<^verbatim>\<open>KeyError\<close>; any exception leaves the empty table \<^verbatim>\<open>pd.DataFrame()\<close>.
\<close>

definition load_frame :: "library \<Rightarrow> dataframe option \<Rightarrow> exn + dataframe" where
  "load_frame lib csv =
     (case csv of
        None \<Rightarrow> Inl ReadError
      | Some df0 \<Rightarrow>
          (case getitem df0 ''Date'' of
             Inl e \<Rightarrow> Inl e
           | Inr date_col \<Rightarrow>
               let df1 = setitem_frame df0 ''Date''
                           (map (to_datetime_coerce strptime_d_m_Y) date_col)
               in (case getitem df1 ''Total'' of
                     Inl e \<Rightarrow> Inl e
                   | Inr total_col \<Rightarrow>
                       let df2 = setitem_frame df1 ''Total''
                                   (map fillna_0 (to_numeric_coerce lib total_col))
                       in (case getitem df2 ''Quantity'' of
                             Inl e \<Rightarrow> Inl e
                           | Inr quantity_col \<Rightarrow>
                               Inr (fillna_str
                                      (setitem_frame df2 ''Quantity''
                                         (map fillna_0
                                            (to_numeric_coerce lib quantity_col))))))))"

definition startup_db_client :: "library \<Rightarrow> dataframe option \<Rightarrow> store" where
  "startup_db_client lib csv =
     (case load_frame lib csv of
        Inl e \<Rightarrow> \<lparr>app_state_data = DataFrame_empty, locals = []\<rparr>
      | Inr df \<Rightarrow> \<lparr>app_state_data = df, locals = []\<rparr>)"

section \<open>Endpoints on the stored table\<close>

text \<open>\<^verbatim>\<open>get_data\<close>: \<^verbatim>\<open>app.state.data.iloc[skip:skip+limit].to_dict(orient="records")\<close>.\<close>

definition get_data :: "store \<Rightarrow> int \<Rightarrow> int \<Rightarrow> (exn + (string \<times> cell) list list) \<times> store" where
  "get_data s skip limit =
     (Inr (to_dict_records (iloc (deref s AppStateData) skip (skip + limit))), s)"

definition get_columns :: "store \<Rightarrow> string list \<times> store" where
  "get_columns s = (columns (deref s AppStateData), s)"

text \<open>
  \<^verbatim>\<open>add_column\<close>: HTTP 400 when the name is a column already, otherwise
  \<^verbatim>\<open>app.state.data[column_name] = default_value\<close>, a scalar broadcast to every row.
\<close>

definition add_column :: "store \<Rightarrow> string \<Rightarrow> string \<Rightarrow> (exn + unit) \<times> store" where
  "add_column s column_name default_value =
     (if column_name \<in> set (columns (deref s AppStateData)) then (Inl (HTTPException 400), s)
      else (Inr (),
            setitem s AppStateData column_name
              (replicate (length (rows (deref s AppStateData))) (Str default_value))))"

section \<open>Filtering\<close>

text \<open>
  The query parameters of the two filter endpoints; \<open>None\<close> is a parameter that was not
  given. A numeric bound is a float: a finite one, an infinity or nan.
\<close>

record criteria =
  status :: "string option"
  delivery_status :: "string option"
  country :: "string option"
  province :: "string option"
  state :: "string option"
  payment_method :: "string option"
  from_date :: "string option"
  to_date :: "string option"
  min_total :: "cell option"
  max_total :: "cell option"

text \<open>\<^verbatim>\<open>df[df[name] <op> v]\<close>: the rows whose cell in the column satisfies the comparison.\<close>

definition mask_rows :: "dataframe \<Rightarrow> string \<Rightarrow> (cell \<Rightarrow> bool) \<Rightarrow> exn + dataframe" where
  "mask_rows df name p =
     (case getitem df name of
        Inl e \<Rightarrow> Inl e
      | Inr col \<Rightarrow> Inr (df\<lparr>rows := map fst (filter (\<lambda>(r, c). p c) (zip (rows df) col))\<rparr>))"

text \<open>\<^verbatim>\<open>if v and v != "All": df = df[df[name] == v]\<close>; an empty string is falsy.\<close>

definition filter_eq :: "string option \<Rightarrow> string \<Rightarrow> dataframe \<Rightarrow> exn + dataframe" where
  "filter_eq v name df =
     (case v of
        None \<Rightarrow> Inr df
      | Some x \<Rightarrow> if x \<noteq> [] \<and> x \<noteq> ''All'' then mask_rows df name (\<lambda>c. c = Str x) else Inr df)"

text \<open>
  \<^verbatim>\<open>Total >= m\<close> and \<^verbatim>\<open>Total <= m\<close> compare as floats; a comparison with a missing value or
  with nan is false.
\<close>

definition ge_num :: "library \<Rightarrow> cell \<Rightarrow> cell \<Rightarrow> bool" where
  "ge_num lib m c = float_le m (py_float lib c)"

definition le_num :: "library \<Rightarrow> cell \<Rightarrow> cell \<Rightarrow> bool" where
  "le_num lib m c = float_le (py_float lib c) m"

definition filter_min :: "library \<Rightarrow> cell option \<Rightarrow> dataframe \<Rightarrow> exn + dataframe" where
  "filter_min lib v df =
     (case v of None \<Rightarrow> Inr df | Some m \<Rightarrow> mask_rows df ''Total'' (ge_num lib m))"

definition filter_max :: "library \<Rightarrow> cell option \<Rightarrow> dataframe \<Rightarrow> exn + dataframe" where
  "filter_max lib v df =
     (case v of None \<Rightarrow> Inr df | Some m \<Rightarrow> mask_rows df ''Total'' (le_num lib m))"

text \<open>\<^verbatim>\<open>Date >= bound\<close> and \<^verbatim>\<open>Date <= bound\<close> for a timestamp; false for a null date.\<close>

definition ge_date :: "timestamp \<Rightarrow> cell \<Rightarrow> bool" where
  "ge_date b c = (case c of TS t \<Rightarrow> ts_le b t | _ \<Rightarrow> False)"

definition le_date :: "timestamp \<Rightarrow> cell \<Rightarrow> bool" where
  "le_date b c = (case c of TS t \<Rightarrow> ts_le t b | _ \<Rightarrow> False)"

text \<open>
  \<^verbatim>\<open>bound = pd.to_datetime(x, errors='coerce'); df = df[df["Date"] <op> bound]\<close>. A string
  that does not parse gives \<^verbatim>\<open>NaT\<close>, and every comparison with \<^verbatim>\<open>NaT\<close> is false. A bound with
  a time zone cannot be compared with the dates of the table, which have none: the
  comparison raises \<^verbatim>\<open>TypeError\<close>. (For a table without rows this is a parameter, see above.)
\<close>

definition compare_date ::
  "library \<Rightarrow> (timestamp \<Rightarrow> cell \<Rightarrow> bool) \<Rightarrow> string \<Rightarrow> dataframe \<Rightarrow> exn + dataframe" where
  "compare_date lib cmp x df =
     (case to_datetime_infer lib x of
        None \<Rightarrow> mask_rows df ''Date'' (\<lambda>c. False)
      | Some (Naive b) \<Rightarrow> mask_rows df ''Date'' (cmp b)
      | Some (Aware b) \<Rightarrow>
          (case getitem df ''Date'' of
             Inl e \<Rightarrow> Inl e
           | Inr col \<Rightarrow>
               if col = [] \<and> \<not> compare_empty_raises lib then Inr df else Inl TypeError))"

text \<open>\<^verbatim>\<open>if from_date: ...\<close> and \<^verbatim>\<open>if to_date: ...\<close>; an empty string is falsy.\<close>

definition filter_from :: "library \<Rightarrow> string option \<Rightarrow> dataframe \<Rightarrow> exn + dataframe" where
  "filter_from lib v df =
     (case v of
        None \<Rightarrow> Inr df
      | Some x \<Rightarrow> if x \<noteq> [] then compare_date lib ge_date x df else Inr df)"

definition filter_to :: "library \<Rightarrow> string option \<Rightarrow> dataframe \<Rightarrow> exn + dataframe" where
  "filter_to lib v df =
     (case v of
        None \<Rightarrow> Inr df
      | Some x \<Rightarrow> if x \<noteq> [] then compare_date lib le_date x df else Inr df)"

definition and_then :: "exn + 'a \<Rightarrow> ('a \<Rightarrow> exn + 'b) \<Rightarrow> exn + 'b" where
  "and_then m f = (case m of Inl e \<Rightarrow> Inl e | Inr x \<Rightarrow> f x)"

text \<open>
  The ten filter statements, in the order of the source; \<^verbatim>\<open>filter_data\<close> and
  \<^verbatim>\<open>get_filtered_stats\<close> run the same ten.
\<close>

definition apply_filters :: "library \<Rightarrow> criteria \<Rightarrow> dataframe \<Rightarrow> exn + dataframe" where
  "apply_filters lib c df =
     and_then (filter_eq (status c) ''Status'' df) (\<lambda>df.
     and_then (filter_eq (delivery_status c) ''Deliver Status'' df) (\<lambda>df.
     and_then (filter_eq (country c) ''Shipping Country'' df) (\<lambda>df.
     and_then (filter_eq (province c) ''Shipping Province'' df) (\<lambda>df.
     and_then (filter_eq (state c) ''State'' df) (\<lambda>df.
     and_then (filter_eq (payment_method c) ''Payment Method'' df) (\<lambda>df.
     and_then (filter_min lib (min_total c) df) (\<lambda>df.
     and_then (filter_max lib (max_total c) df) (\<lambda>df.
     and_then (filter_from lib (from_date c) df) (\<lambda>df.
     filter_to lib (to_date c) df)))))))))"

section \<open>Aggregation\<close>

text \<open>
  \<^verbatim>\<open>value_counts().to_dict()\<close> and \<^verbatim>\<open>groupby(key)[col].sum().to_dict()\<close>: dictionaries from
  each value present (missing values dropped) to its count, or to the aggregate of its rows.
\<close>

definition value_counts_dict :: "cell list \<Rightarrow> (cell \<rightharpoonup> nat)" where
  "value_counts_dict col =
     (\<lambda>k. if k \<in> set col \<and> \<not> isna k then Some (count_list col k) else None)"

definition group_of :: "cell list \<Rightarrow> cell list \<Rightarrow> cell \<Rightarrow> cell list" where
  "group_of keys vals k = map snd (filter (\<lambda>(k', v). k' = k) (zip keys vals))"

definition groupby_dict :: "cell list \<Rightarrow> cell list \<Rightarrow> (cell list \<Rightarrow> 'a) \<Rightarrow> (cell \<rightharpoonup> 'a)" where
  "groupby_dict keys vals agg =
     (\<lambda>k. if k \<in> set keys \<and> \<not> isna k then Some (agg (group_of keys vals k)) else None)"

text \<open>\<^verbatim>\<open>unique()\<close>: the distinct values in first-seen order.\<close>

definition unique :: "'a list \<Rightarrow> 'a list" where
  "unique xs = rev (remdups (rev xs))"

text \<open>
  \<^verbatim>\<open>groupby('Month')\<close>: the groups are the distinct month labels present, in ascending
  order; rows whose label is missing belong to no group.
\<close>

definition month_keys :: "cell list \<Rightarrow> string list" where
  "month_keys keys = sort (remdups (concat (map (\<lambda>c. case c of Str m \<Rightarrow> [m] | _ \<Rightarrow> []) keys)))"

definition groupby_month :: "cell list \<Rightarrow> cell list \<Rightarrow> (cell list \<Rightarrow> 'a) \<Rightarrow> (string \<times> 'a) list" where
  "groupby_month keys vals agg = map (\<lambda>m. (m, agg (group_of keys vals (Str m)))) (month_keys keys)"

text \<open>\<^verbatim>\<open>sort_values('Month')\<close> on the records of a monthly table (its labels are distinct).\<close>

definition sort_values_Month :: "(string \<times> 'a) list \<Rightarrow> (string \<times> 'a) list" where
  "sort_values_Month recs = sort_key fst recs"

text \<open>
  \<^verbatim>\<open>value_counts()\<close> as a table: each value present with its count, in first-seen order,
  before the library sorts it by count.
\<close>

definition value_counts_table :: "cell list \<Rightarrow> (cell \<times> nat) list" where
  "value_counts_table col =
     map (\<lambda>k. (k, count_list col k)) (unique (filter (\<lambda>c. \<not> isna c) col))"

record sales_kpis =
  total_sales :: cell
  avg_order_value :: cell
  total_quantity :: int

record filtered_stats = sales_kpis +
  total_count :: nat
  state_breakdown :: "cell \<rightharpoonup> cell"
  status_breakdown :: "cell \<rightharpoonup> nat"

record stats = sales_kpis +
  total_records :: nat
  state_counts :: "cell \<rightharpoonup> nat"
  state_values :: "cell \<rightharpoonup> cell"
  avg_quantity_by_state :: "cell \<rightharpoonup> cell"
  status_counts :: "cell \<rightharpoonup> nat"
  delivery_status_counts :: "cell \<rightharpoonup> nat"
  country_counts :: "cell \<rightharpoonup> nat"
  payment_method_counts :: "cell \<rightharpoonup> nat"
  monthly_sales :: "(string \<times> cell) list"
  monthly_orders :: "(string \<times> nat) list"
  monthly_avg_values :: "(string \<times> cell \<times> nat) list"
  top_skus :: "(cell \<times> nat) list"

section \<open>Statistics endpoint\<close>

text \<open>
  The three monthly tables of \<^verbatim>\<open>get_stats\<close>, from the copy that carries the \<^verbatim>\<open>Month\<close>
  column: the sum of \<^verbatim>\<open>Total\<close>, the number of rows, and the mean of \<^verbatim>\<open>Total\<close> rounded to two
  decimals with the count, each sorted by \<^verbatim>\<open>Month\<close>.
\<close>

definition monthly_tables ::
  "library \<Rightarrow> dataframe
     \<Rightarrow> exn + (string \<times> cell) list \<times> (string \<times> nat) list \<times> (string \<times> cell \<times> nat) list" where
  "monthly_tables lib monthly_data =
     and_then (getitem monthly_data ''Total'') (\<lambda>total_col.
       let month_col = column monthly_data ''Month''
       in Inr (sort_values_Month (groupby_month month_col total_col (group_sum lib)),
               sort_values_Month (groupby_month month_col total_col length),
               sort_values_Month
                 (groupby_month month_col total_col
                    (\<lambda>g. (round2 lib (group_mean lib g), series_count g)))))"

text \<open>
  \<^verbatim>\<open>get_stats\<close>. \<open>data\<close> is an alias of the shared table; \<open>monthly_data\<close> is a copy, and the
  \<^verbatim>\<open>Month\<close> column is written to the copy. The order in which \<^verbatim>\<open>value_counts\<close> leaves equal
  counts is the library's (its default sort is not a stable one): it is the parameter
  \<open>sort_values\<close>. The returned dictionary is built with \<^verbatim>\<open>float(total_sales)\<close>,
  \<^verbatim>\<open>int(total_quantity)\<close> and \<^verbatim>\<open>float(avg_order_value)\<close>; \<^verbatim>\<open>int\<close> raises when the sum of the
  quantities is an infinity or nan, and any exception becomes HTTP 500.
\<close>

definition get_stats :: "library \<Rightarrow> store \<Rightarrow> (exn + stats) \<times> store" where
  "get_stats lib s =
     (let data = AppStateData;
          df = deref s data;
          has = (\<lambda>name. name \<in> set (columns df));
          records = length (rows df);
          sales = (if has ''Total'' then series_sum lib (column df ''Total'') else Int64 0);
          quantity =
            (if has ''Quantity'' then series_sum lib (column df ''Quantity'') else Int64 0);
          avg = (if 0 < records then truediv lib sales records else Int64 0);
          (monthly, s') =
            (if has ''Date'' then
               let date_col =
                     map (to_datetime_coerce (\<lambda>x. map_option wall_time (to_datetime_infer lib x)))
                       (column df ''Date'');
                   (monthly_data, s1) = copy s data;
                   s2 = setitem s1 monthly_data ''Month'' (map strftime_Y_m date_col)
               in (monthly_tables lib (deref s2 monthly_data), s2)
             else (Inr ([], [], []), s))
      in (case and_then monthly (\<lambda>(m_sales, m_orders, m_avg).
                and_then (if has ''State'' then
                            and_then (getitem df ''Total'') (\<lambda>total_col.
                              Inr (groupby_dict (column df ''State'') total_col (group_sum lib)))
                          else Inr Map.empty) (\<lambda>values_by_state.
                and_then (py_int quantity) (\<lambda>quantity_int.
                Inr \<lparr>total_sales = py_float lib sales,
                     avg_order_value = py_float lib avg,
                     total_quantity = quantity_int,
                     total_records = records,
                     state_counts =
                       (if has ''State'' then value_counts_dict (column df ''State'')
                        else Map.empty),
                     state_values = values_by_state,
                     avg_quantity_by_state =
                       (if has ''State'' \<and> has ''Quantity''
                        then groupby_dict (column df ''State'') (column df ''Quantity'')
                               (group_mean lib)
                        else Map.empty),
                     status_counts =
                       (if has ''Status'' then value_counts_dict (column df ''Status'')
                        else Map.empty),
                     delivery_status_counts =
                       (if has ''Deliver Status''
                        then value_counts_dict (column df ''Deliver Status'') else Map.empty),
                     country_counts =
                       (if has ''Shipping Country''
                        then value_counts_dict (column df ''Shipping Country'')
                        else Map.empty),
                     payment_method_counts =
                       (if has ''Payment Method''
                        then value_counts_dict (column df ''Payment Method'') else Map.empty),
                     monthly_sales = m_sales,
                     monthly_orders = m_orders,
                     monthly_avg_values = m_avg,
                     top_skus =
                       (if has ''SKU''
                        then take 10 (sort_values lib (value_counts_table (column df ''SKU'')))
                        else [])\<rparr>)))
          of Inl e \<Rightarrow> (Inl (HTTPException 500), s')
           | Inr result \<Rightarrow> (Inr result, s')))"

section \<open>Filter options\<close>

definition categorical_columns :: "string list" where
  "categorical_columns =
     [''Status'', ''Deliver Status'', ''Shipping Country'', ''Shipping Province'',
      ''Payment Method'', ''Risk Level'', ''State'']"

text \<open>
  \<^verbatim>\<open>get_filter_options\<close>: for each categorical column present, \<^verbatim>\<open>"All"\<close> followed by the
  distinct non-empty values in first-seen order.
\<close>

definition get_filter_options :: "store \<Rightarrow> (exn + (string \<times> cell list) list) \<times> store" where
  "get_filter_options s =
     (let data = AppStateData; df = deref s data
      in (Inr (map (\<lambda>col. (col, Str ''All'' #
                 unique (filter (\<lambda>c. \<not> isna c) (filter (\<lambda>c. c \<noteq> Str []) (column df col)))))
               (filter (\<lambda>col. col \<in> set (columns df)) categorical_columns)), s))"

section \<open>Filter endpoints\<close>

text \<open>
  \<^verbatim>\<open>filter_data\<close>: copies the table, filters the copy, builds the page and the summary
  values, returns the page. The summary values read \<^verbatim>\<open>Total\<close> and \<^verbatim>\<open>Quantity\<close>, and
  \<^verbatim>\<open>int(filtered_data["Quantity"].sum())\<close> raises when that sum is an infinity or nan. Any
  exception becomes HTTP 500.
\<close>

definition filter_data ::
  "library \<Rightarrow> store \<Rightarrow> criteria \<Rightarrow> int \<Rightarrow> int
     \<Rightarrow> (exn + (string \<times> cell) list list) \<times> store" where
  "filter_data lib s c skip limit =
     (let (filtered_data, s1) = copy s AppStateData
      in (case and_then (apply_filters lib c (deref s1 filtered_data)) (\<lambda>view.
                and_then (getitem view ''Total'') (\<lambda>total_col.
                and_then (getitem view ''Quantity'') (\<lambda>quantity_col.
                and_then (py_int (series_sum lib quantity_col)) (\<lambda>quantity_int.
                Inr (to_dict_records (iloc view skip (skip + limit)))))))
          of Inl e \<Rightarrow> (Inl (HTTPException 500), s1)
           | Inr page \<Rightarrow> (Inr page, s1)))"

definition get_filtered_stats ::
  "library \<Rightarrow> store \<Rightarrow> criteria \<Rightarrow> (exn + filtered_stats) \<times> store" where
  "get_filtered_stats lib s c =
     (let (filtered_data, s1) = copy s AppStateData
      in (case and_then (apply_filters lib c (deref s1 filtered_data)) (\<lambda>view.
                and_then (getitem view ''Total'') (\<lambda>total_col.
                and_then (getitem view ''Quantity'') (\<lambda>quantity_col.
                and_then (py_int (series_sum lib quantity_col)) (\<lambda>quantity_int.
                and_then (getitem view ''State'') (\<lambda>state_col.
                and_then (getitem view ''Status'') (\<lambda>status_col.
                Inr \<lparr>total_sales = py_float lib (series_sum lib total_col),
                     avg_order_value =
                       (if 0 < length (rows view) then py_float lib (series_mean lib total_col)
                        else Int64 0),
                     total_quantity = quantity_int,
                     total_count = length (rows view),
                     state_breakdown = groupby_dict state_col total_col (group_sum lib),
                     status_breakdown = value_counts_dict status_col\<rparr>))))))
          of Inl e \<Rightarrow> (Inl (HTTPException 500), s1)
           | Inr result \<Rightarrow> (Inr result, s1)))"

section \<open>Notions used to state the properties\<close>

subsection \<open>The page as the specification words it\<close>

text \<open>
  Section 4.1 of the specification: the sub-sequence \<open>[skip, skip+limit)\<close>, \<open>skip\<close> below 0
  clamped to 0, \<open>limit \<le> 0\<close> giving the empty sequence. It is compared with \<^verbatim>\<open>get_data\<close>
  below.
\<close>

definition page_spec :: "int \<Rightarrow> int \<Rightarrow> 'a list \<Rightarrow> 'a list" where
  "page_spec skip limit xs =
     (if limit \<le> 0 then [] else take (nat limit) (drop (nat (max skip 0)) xs))"

subsection \<open>The view as a conjunction of row predicates\<close>

text \<open>
  Section 4.2 of the specification describes the view as the rows that satisfy the
  conjunction of the criteria that are present. The predicates below say when one
  criterion lets a row pass (a date bound with a time zone lets no row pass: the request
  fails, or the table has no rows); \<open>columns_present\<close> lists the columns that the criteria
  in force read. They are compared with \<open>apply_filters\<close> in \<open>apply_filters_sound\<close> and
  \<open>apply_filters_complete\<close>.
\<close>

definition active :: "string option \<Rightarrow> bool" where
  "active v = (case v of None \<Rightarrow> False | Some x \<Rightarrow> x \<noteq> [] \<and> x \<noteq> ''All'')"

definition truthy :: "string option \<Rightarrow> bool" where
  "truthy v = (case v of None \<Rightarrow> False | Some x \<Rightarrow> x \<noteq> [])"

definition cat_ok :: "string option \<Rightarrow> string \<Rightarrow> row \<Rightarrow> bool" where
  "cat_ok v name =
     (\<lambda>r. case v of None \<Rightarrow> True | Some x \<Rightarrow> x = [] \<or> x = ''All'' \<or> cell_of r name = Str x)"

definition min_ok :: "library \<Rightarrow> cell option \<Rightarrow> row \<Rightarrow> bool" where
  "min_ok lib v =
     (\<lambda>r. case v of None \<Rightarrow> True | Some m \<Rightarrow> ge_num lib m (cell_of r ''Total''))"

definition max_ok :: "library \<Rightarrow> cell option \<Rightarrow> row \<Rightarrow> bool" where
  "max_ok lib v =
     (\<lambda>r. case v of None \<Rightarrow> True | Some m \<Rightarrow> le_num lib m (cell_of r ''Total''))"

definition date_ok ::
  "library \<Rightarrow> (timestamp \<Rightarrow> cell \<Rightarrow> bool) \<Rightarrow> string option \<Rightarrow> row \<Rightarrow> bool" where
  "date_ok lib cmp v =
     (\<lambda>r. case v of
             None \<Rightarrow> True
           | Some x \<Rightarrow>
               x = [] \<or> (case to_datetime_infer lib x of
                           Some (Naive b) \<Rightarrow> cmp b (cell_of r ''Date'')
                         | _ \<Rightarrow> False))"

definition row_selected :: "library \<Rightarrow> criteria \<Rightarrow> row \<Rightarrow> bool" where
  "row_selected lib c r =
     (cat_ok (status c) ''Status'' r \<and> cat_ok (delivery_status c) ''Deliver Status'' r
      \<and> cat_ok (country c) ''Shipping Country'' r \<and> cat_ok (province c) ''Shipping Province'' r
      \<and> cat_ok (state c) ''State'' r \<and> cat_ok (payment_method c) ''Payment Method'' r
      \<and> min_ok lib (min_total c) r \<and> max_ok lib (max_total c) r
      \<and> date_ok lib ge_date (from_date c) r \<and> date_ok lib le_date (to_date c) r)"

definition select_rows :: "(row \<Rightarrow> bool) \<Rightarrow> dataframe \<Rightarrow> dataframe" where
  "select_rows p df = df\<lparr>rows := filter p (rows df)\<rparr>"

definition columns_present :: "criteria \<Rightarrow> dataframe \<Rightarrow> bool" where
  "columns_present c df =
     ((active (status c) \<longrightarrow> ''Status'' \<in> set (columns df))
      \<and> (active (delivery_status c) \<longrightarrow> ''Deliver Status'' \<in> set (columns df))
      \<and> (active (country c) \<longrightarrow> ''Shipping Country'' \<in> set (columns df))
      \<and> (active (province c) \<longrightarrow> ''Shipping Province'' \<in> set (columns df))
      \<and> (active (state c) \<longrightarrow> ''State'' \<in> set (columns df))
      \<and> (active (payment_method c) \<longrightarrow> ''Payment Method'' \<in> set (columns df))
      \<and> (min_total c \<noteq> None \<longrightarrow> ''Total'' \<in> set (columns df))
      \<and> (max_total c \<noteq> None \<longrightarrow> ''Total'' \<in> set (columns df))
      \<and> (truthy (from_date c) \<longrightarrow> ''Date'' \<in> set (columns df))
      \<and> (truthy (to_date c) \<longrightarrow> ''Date'' \<in> set (columns df)))"

text \<open>
  Criteria without any filter: every categorical field absent or \<^verbatim>\<open>"All"\<close>, every bound
  absent. The values of a categorical field that leave it without effect.
\<close>

definition absent_or_All :: "string option \<Rightarrow> bool" where
  "absent_or_All v = (v = None \<or> v = Some ''All'')"

definition no_filter :: "criteria \<Rightarrow> bool" where
  "no_filter c =
     (absent_or_All (status c) \<and> absent_or_All (delivery_status c) \<and> absent_or_All (country c)
      \<and> absent_or_All (province c) \<and> absent_or_All (state c)
      \<and> absent_or_All (payment_method c)
      \<and> from_date c = None \<and> to_date c = None \<and> min_total c = None \<and> max_total c = None)"

definition pass_all_values :: "string option set" where
  "pass_all_values = {None, Some [], Some ''All''}"



definition aware :: "library \<Rightarrow> string option \<Rightarrow> bool" where
  "aware lib v =
     (case v of
        None \<Rightarrow> False
      | Some x \<Rightarrow>
          x \<noteq> [] \<and> (case to_datetime_infer lib x of Some (Aware b) \<Rightarrow> True | _ \<Rightarrow> False))"

definition aware_bound :: "library \<Rightarrow> criteria \<Rightarrow> bool" where
  "aware_bound lib c = (aware lib (from_date c) \<or> aware lib (to_date c))"

text \<open>
  The columns that the criteria can read, those of the six categorical fields, and the
  rows with the empty string in a column.
\<close>

definition filter_columns :: "string list" where
  "filter_columns =
     [''Status'', ''Deliver Status'', ''Shipping Country'', ''Shipping Province'', ''State'',
      ''Payment Method'', ''Total'', ''Date'']"

definition field_columns :: "string list" where
  "field_columns =
     [''Status'', ''Deliver Status'', ''Shipping Country'', ''Shipping Province'', ''State'',
      ''Payment Method'']"

definition empty_cell :: "string \<Rightarrow> row \<Rightarrow> bool" where
  "empty_cell name r = (cell_of r name = Str [])"

text \<open>A computation that ends in an exception.\<close>

definition raises :: "exn + 'a \<Rightarrow> bool" where
  "raises m = (case m of Inl e \<Rightarrow> True | Inr x \<Rightarrow> False)"

text \<open>A row of a well-typed table.\<close>

definition typed_row :: "row \<Rightarrow> bool" where
  "typed_row r =
     (dated (cell_of r ''Date'') \<and> number (cell_of r ''Total'')
      \<and> number (cell_of r ''Quantity''))"

subsection \<open>Loading and the statistics\<close>

text \<open>
  The raw tables that load without an exception; the column that loading stores for a raw
  numeric column and the date it stores for a raw cell; the value of \<^verbatim>\<open>int(total_quantity)\<close>
  for a table; the month labels that \<^verbatim>\<open>get_stats\<close> computes and the copy that carries them;
  the rows whose date is null, and the table with those rows removed.
\<close>

definition loadable :: "dataframe option \<Rightarrow> bool" where
  "loadable csv =
     (case csv of
        None \<Rightarrow> False
      | Some df0 \<Rightarrow> {''Date'', ''Total'', ''Quantity''} \<subseteq> set (columns df0))"

definition coerced :: "library \<Rightarrow> cell list \<Rightarrow> cell list" where
  "coerced lib col = map fillna_0 (to_numeric_coerce lib col)"

definition loaded_date :: "cell \<Rightarrow> cell" where
  "loaded_date c = to_datetime_coerce strptime_d_m_Y c"

definition quantity_int :: "library \<Rightarrow> dataframe \<Rightarrow> exn + int" where
  "quantity_int lib df = py_int (series_sum lib (column df ''Quantity''))"

definition month_label :: "library \<Rightarrow> row \<Rightarrow> cell" where
  "month_label lib r =
     strftime_Y_m
       (to_datetime_coerce (\<lambda>x. map_option wall_time (to_datetime_infer lib x))
          (cell_of r ''Date''))"

definition month_frame :: "library \<Rightarrow> dataframe \<Rightarrow> dataframe" where
  "month_frame lib df = setitem_frame df ''Month'' (map (month_label lib) (rows df))"

definition null_date :: "row \<Rightarrow> bool" where
  "null_date r = (cell_of r ''Date'' = NaT)"

definition without_null_dates :: "dataframe \<Rightarrow> dataframe" where
  "without_null_dates df = select_rows (\<lambda>r. \<not> null_date r) df"

section \<open>Example data\<close>

text \<open>
  A library for the examples. It agrees with the table library on the inputs that the
  examples give it: it reads the numerals \<^verbatim>\<open>12.5\<close> and \<^verbatim>\<open>10\<close>, reads
  \<^verbatim>\<open>2023-02-05T00:00:00Z\<close> as a timestamp with a time zone and no other string outside the
  shapes that the model fixes, sorts a table of counts by descending count, and computes
  with the small numbers of the examples exactly; \<open>huge\<close> is the float \<open>3 \<times> 2\<^sup>1\<^sup>0\<^sup>2\<^sup>2\<close> (about \<^verbatim>\<open>1.3e308\<close>), and
  the sum of two of it overflows to infinity.
\<close>

definition demo_numeral :: "cell list \<Rightarrow> cell \<Rightarrow> cell" where
  "demo_numeral col c =
     (if c = Str ''12.5'' then Num (25 / 2) else if c = Str ''10'' then Num 10
      else if number c then c else NaN)"

definition demo_other_date :: "string \<Rightarrow> stamp option" where
  "demo_other_date x =
     (if x = ''2023-02-05T00:00:00Z'' then Some (Aware (2023, 2, 5, 0)) else None)"

definition sort_by_count :: "(cell \<times> nat) list \<Rightarrow> (cell \<times> nat) list" where
  "sort_by_count xs = sort_key (\<lambda>p. - int (snd p)) xs"

definition huge :: rat where
  "huge = 3 * 2 ^ 1022"

definition rat_of :: "cell \<Rightarrow> rat" where
  "rat_of c = (case c of Num q \<Rightarrow> q | Int64 n \<Rightarrow> of_int n | _ \<Rightarrow> 0)"

definition demo_sum :: "cell list \<Rightarrow> cell" where
  "demo_sum vals =
     (if vals = [Num huge, Num huge] then PosInf
      else Num (sum_list (map rat_of vals)))"

definition demo_mean :: "cell list \<Rightarrow> cell" where
  "demo_mean vals = Num (sum_list (map rat_of vals) / of_nat (length vals))"

definition demo_divide :: "cell \<Rightarrow> nat \<Rightarrow> cell" where
  "demo_divide x n = (case x of Num q \<Rightarrow> Num (q / of_nat n) | _ \<Rightarrow> x)"

definition demo_lib :: library where
  "demo_lib =
     \<lparr>to_numeric = demo_numeral, to_datetime_other = demo_other_date,
      sort_values = sort_by_count, Series_sum = demo_sum, Series_mean = demo_mean,
      groupby_sum = demo_sum, groupby_mean = demo_mean, true_divide = demo_divide,
      round_2 = (\<lambda>c. c), float_of_int = (\<lambda>n. Num (of_int n)),
      compare_empty_raises = True\<rparr>"

text \<open>
  Stored tables, raw tables as read from the file, criteria, and the page of the two-row
  table.
\<close>

definition demo3 :: store where
  "demo3 =
     \<lparr>app_state_data =
        \<lparr>columns = [''Total''],
         rows = [[''Total'' \<mapsto> Num 10], [''Total'' \<mapsto> Num 20], [''Total'' \<mapsto> Num 30]]\<rparr>,
      locals = []\<rparr>"

definition demo_sales :: store where
  "demo_sales =
     \<lparr>app_state_data =
        \<lparr>columns = [''Date'', ''Total'', ''Quantity'', ''Status'', ''State''],
         rows = [[''Date'' \<mapsto> TS (2023, 2, 5, 0), ''Total'' \<mapsto> Num 10, ''Quantity'' \<mapsto> Num 1,
                  ''Status'' \<mapsto> Str ''Paid'', ''State'' \<mapsto> Str ''CA''],
                 [''Date'' \<mapsto> NaT, ''Total'' \<mapsto> Num 20, ''Quantity'' \<mapsto> Num (3 / 2),
                  ''Status'' \<mapsto> Str [], ''State'' \<mapsto> Str ''NY'']]\<rparr>,
      locals = []\<rparr>"

definition demo_page :: "(string \<times> cell) list list" where
  "demo_page =
     [[(''Date'', TS (2023, 2, 5, 0)), (''Total'', Num 10), (''Quantity'', Num 1),
       (''Status'', Str ''Paid''), (''State'', Str ''CA'')],
      [(''Date'', NaT), (''Total'', Num 20), (''Quantity'', Num (3 / 2)),
       (''Status'', Str []), (''State'', Str ''NY'')]]"

definition demo_csv :: dataframe where
  "demo_csv =
     \<lparr>columns = [''Date'', ''Total'', ''Quantity''],
      rows = [[''Date'' \<mapsto> Str ''15/01/2023'', ''Total'' \<mapsto> Str ''12.5'', ''Quantity'' \<mapsto> Num (3 / 2)],
              [''Date'' \<mapsto> Str ''2023-01-05'', ''Total'' \<mapsto> Str ''abc'', ''Quantity'' \<mapsto> Num 1],
              [''Date'' \<mapsto> Str ''03/02/2023'', ''Total'' \<mapsto> Str ''10'', ''Quantity'' \<mapsto> Num 2]]\<rparr>"

definition demo_csv_jan5 :: dataframe where
  "demo_csv_jan5 =
     \<lparr>columns = [''Date'', ''Total'', ''Quantity'', ''Status'', ''State''],
      rows = [[''Date'' \<mapsto> Str ''05/01/2023'', ''Total'' \<mapsto> Num 10, ''Quantity'' \<mapsto> Num 1,
               ''Status'' \<mapsto> Str ''Paid'', ''State'' \<mapsto> Str ''CA'']]\<rparr>"

definition demo_csv_overflow :: dataframe where
  "demo_csv_overflow =
     \<lparr>columns = [''Date'', ''Total'', ''Quantity''],
      rows = [[''Date'' \<mapsto> Str ''15/01/2023'', ''Total'' \<mapsto> Num 1, ''Quantity'' \<mapsto> Num huge],
              [''Date'' \<mapsto> Str ''16/01/2023'', ''Total'' \<mapsto> Num 1, ''Quantity'' \<mapsto> Num huge]]\<rparr>"

definition no_criteria :: criteria where
  "no_criteria =
     \<lparr>status = None, delivery_status = None, country = None, province = None, state = None,
      payment_method = None, from_date = None, to_date = None, min_total = None,
      max_total = None\<rparr>"

text \<open>Criteria that hold date bounds only.\<close>

definition dates_only :: "criteria \<Rightarrow> bool" where
  "dates_only c =
     (status c = None \<and> delivery_status c = None \<and> country c = None \<and> province c = None
      \<and> state c = None \<and> payment_method c = None \<and> min_total c = None
      \<and> max_total c = None)"

definition jan5_bounds :: criteria where
  "jan5_bounds = no_criteria\<lparr>from_date := Some ''05/01/2023'', to_date := Some ''05/01/2023''\<rparr>"

section \<open>Properties\<close>

subsection \<open>Adding a column\<close>

lemma zip_replicate_update:
  "map (\<lambda>(r, x). r(name \<mapsto> x)) (zip rs (replicate (length rs) c)) = map (\<lambda>r. r(name \<mapsto> c)) rs"
  by (induction rs) auto

text \<open>
  C5. \<^verbatim>\<open>add_column\<close> with a name that is a column already fails with HTTP 400 (the
  duplicate-column error) and leaves the store as it was. With a fresh name it succeeds:
  the name is appended to the columns, whose number grows by exactly one, every existing
  row gets the default value under that name and keeps its other cells, and a second call
  with the same name is then rejected.
\<close>

theorem add_column_duplicate_or_fresh:
  "(name \<in> set (columns (app_state_data s)) \<longrightarrow>
      add_column s name v = (Inl (HTTPException 400), s))
   \<and> (name \<notin> set (columns (app_state_data s)) \<longrightarrow>
      (\<exists>s'. add_column s name v = (Inr (), s')
         \<and> columns (app_state_data s') = columns (app_state_data s) @ [name]
         \<and> length (columns (app_state_data s')) = length (columns (app_state_data s)) + 1
         \<and> rows (app_state_data s') = map (\<lambda>r. r(name \<mapsto> Str v)) (rows (app_state_data s))
         \<and> (\<forall>r \<in> set (rows (app_state_data s')). cell_of r name = Str v)
         \<and> locals s' = locals s
         \<and> add_column s' name w = (Inl (HTTPException 400), s')))"
  by (auto simp: add_column_def setitem_def setitem_frame_def zip_replicate_update cell_of_def)

theorem add_column_witness:
  "add_column demo3 ''Total'' ''x'' = (Inl (HTTPException 400), demo3)
   \<and> (\<exists>s'. add_column demo3 ''Notes'' [] = (Inr (), s')
         \<and> columns (app_state_data s') = [''Total'', ''Notes'']
         \<and> (\<forall>r \<in> set (rows (app_state_data s')). cell_of r ''Notes'' = Str [])
         \<and> add_column s' ''Notes'' ''y'' = (Inl (HTTPException 400), s'))"
  using add_column_duplicate_or_fresh [of "''Total''" demo3 "''x''"]
        add_column_duplicate_or_fresh [of "''Notes''" demo3 "[]" "''y''"]
  by (auto simp: demo3_def)

subsection \<open>Pagination\<close>

lemma py_slice_nonneg:
  "0 \<le> a \<Longrightarrow> 0 \<le> l \<Longrightarrow> py_slice a (a + l) xs = take (nat l) (drop (nat a) xs)"
  by (auto simp: py_slice_def Let_def min_def max_def)

lemma py_slice_beyond: "int (length xs) \<le> a \<Longrightarrow> py_slice a b xs = []"
  by (auto simp: py_slice_def Let_def min_def max_def)

lemma py_slice_neg_start:
  "a < 0 \<Longrightarrow> - int (length xs) \<le> a \<Longrightarrow> int (length xs) \<le> a + l \<Longrightarrow>
   py_slice a (a + l) xs = drop (nat (int (length xs) + a)) xs"
  by (auto simp: py_slice_def Let_def min_def max_def add.commute)

lemma py_slice_neg_limit:
  "l < 0 \<Longrightarrow> py_slice 0 (0 + l) xs = take (nat (int (length xs) + l)) xs"
  by (auto simp: py_slice_def Let_def min_def max_def add.commute)

text \<open>
  C6, as stated, fails: with \<open>skip = 0\<close> and \<open>limit = -1\<close> the page of a three-row table
  holds its first two rows, not none; with \<open>skip = -1\<close> and \<open>limit = 5\<close> it holds the
  last row only, where clamping \<open>skip\<close> to 0 would give all three.
\<close>

theorem get_data_not_clamped:
  "fst (get_data demo3 0 (- 1)) = Inr [[(''Total'', Num 10)], [(''Total'', Num 20)]]
   \<and> fst (get_data demo3 0 (- 1))
       \<noteq> Inr (to_dict_records
                (app_state_data demo3
                   \<lparr>rows := page_spec 0 (- 1) (rows (app_state_data demo3))\<rparr>))
   \<and> fst (get_data demo3 (- 1) 5) = Inr [[(''Total'', Num 30)]]
   \<and> fst (get_data demo3 (- 1) 5)
       \<noteq> Inr (to_dict_records
                (app_state_data demo3
                   \<lparr>rows := page_spec (- 1) 5 (rows (app_state_data demo3))\<rparr>))"
  by (simp add: get_data_def demo3_def iloc_def py_slice_def page_spec_def
        to_dict_records_def cell_of_def)

text \<open>
  C6, amended. \<^verbatim>\<open>get_data\<close> never raises and leaves the store alone; its page is the
  Python slice \<^verbatim>\<open>rows[skip : skip+limit]\<close> in stored order. For \<open>skip \<ge> 0\<close> and
  \<open>limit \<ge> 0\<close> that is the sub-sequence \<open>[skip, skip+limit)\<close>, which agrees with the
  specification's page; a \<open>skip\<close> at or beyond the length gives the empty page. A negative
  \<open>skip\<close> counts from the end of the table, and a negative \<open>limit\<close> with \<open>skip = 0\<close>
  drops rows from the end.
\<close>

theorem get_data_python_slice:
  "\<exists>page. get_data s skip limit = (Inr page, s)
     \<and> page = to_dict_records
                (app_state_data s\<lparr>rows := py_slice skip (skip + limit) (rows (app_state_data s))\<rparr>)
     \<and> (0 \<le> skip \<and> 0 \<le> limit \<longrightarrow>
          page = to_dict_records
                   (app_state_data s
                      \<lparr>rows := take (nat limit) (drop (nat skip) (rows (app_state_data s)))\<rparr>)
          \<and> page = to_dict_records
                     (app_state_data s\<lparr>rows := page_spec skip limit (rows (app_state_data s))\<rparr>))
     \<and> (int (length (rows (app_state_data s))) \<le> skip \<longrightarrow> page = [])
     \<and> (skip < 0 \<and> - int (length (rows (app_state_data s))) \<le> skip
          \<and> int (length (rows (app_state_data s))) \<le> skip + limit \<longrightarrow>
          page = to_dict_records
                   (app_state_data s
                      \<lparr>rows := drop (nat (int (length (rows (app_state_data s))) + skip))
                                 (rows (app_state_data s))\<rparr>))
     \<and> (skip = 0 \<and> limit < 0 \<longrightarrow>
          page = to_dict_records
                   (app_state_data s
                      \<lparr>rows := take (nat (int (length (rows (app_state_data s))) + limit))
                                 (rows (app_state_data s))\<rparr>))"
proof -
  let ?rs = "rows (app_state_data s)"
  have a: "0 \<le> skip \<Longrightarrow> 0 \<le> limit \<Longrightarrow>
           py_slice skip (skip + limit) ?rs = take (nat limit) (drop (nat skip) ?rs)"
    by (rule py_slice_nonneg)
  have a': "0 \<le> skip \<Longrightarrow> 0 \<le> limit \<Longrightarrow>
           py_slice skip (skip + limit) ?rs = page_spec skip limit ?rs"
    using a by (auto simp: page_spec_def max_def)
  have b: "int (length ?rs) \<le> skip \<Longrightarrow> py_slice skip (skip + limit) ?rs = []"
    by (rule py_slice_beyond)
  have c: "skip < 0 \<Longrightarrow> - int (length ?rs) \<le> skip \<Longrightarrow> int (length ?rs) \<le> skip + limit \<Longrightarrow>
           py_slice skip (skip + limit) ?rs = drop (nat (int (length ?rs) + skip)) ?rs"
    by (rule py_slice_neg_start)
  have d: "skip = 0 \<Longrightarrow> limit < 0 \<Longrightarrow>
           py_slice skip (skip + limit) ?rs = take (nat (int (length ?rs) + limit)) ?rs"
    using py_slice_neg_limit [of limit ?rs] by simp
  show ?thesis
    unfolding get_data_def iloc_def deref.simps
    using a a' b c d by (simp add: to_dict_records_def)
qed

theorem get_data_python_slice_witness:
  "fst (get_data demo3 1 1) = Inr [[(''Total'', Num 20)]]
   \<and> fst (get_data demo3 3 1) = Inr []
   \<and> fst (get_data demo3 (- 2) 5) = Inr [[(''Total'', Num 20)], [(''Total'', Num 30)]]
   \<and> fst (get_data demo3 0 (- 2)) = Inr [[(''Total'', Num 10)]]"
  using get_data_python_slice [of demo3 1 1] get_data_python_slice [of demo3 3 1]
        get_data_python_slice [of demo3 "- 2" 5] get_data_python_slice [of demo3 0 "- 2"]
  by (auto simp: demo3_def to_dict_records_def cell_of_def)

subsection \<open>What the requests do to the store\<close>

lemma snd_case_sum: "snd (case x of Inl e \<Rightarrow> (f e, t) | Inr r \<Rightarrow> (g r, t)) = t"
  by (cases x) auto

lemma get_stats_store:
  "snd (get_stats lib s) =
     (if ''Date'' \<in> set (columns (app_state_data s))
      then setitem (snd (copy s AppStateData)) (fst (copy s AppStateData)) ''Month''
             (map strftime_Y_m
                (map (to_datetime_coerce (\<lambda>x. map_option wall_time (to_datetime_infer lib x)))
                   (column (app_state_data s) ''Date'')))
      else s)"
  unfolding get_stats_def Let_def case_prod_beta snd_case_sum
  by simp

lemma filter_data_store: "snd (filter_data lib s c skip limit) = snd (copy s AppStateData)"
  unfolding filter_data_def Let_def case_prod_beta snd_case_sum ..

lemma get_filtered_stats_store: "snd (get_filtered_stats lib s c) = snd (copy s AppStateData)"
  unfolding get_filtered_stats_def Let_def case_prod_beta snd_case_sum ..

text \<open>
  C10. Every read request leaves the shared table, rows and columns, as it was:
  \<^verbatim>\<open>get_data\<close>, \<^verbatim>\<open>get_columns\<close> and \<^verbatim>\<open>get_filter_options\<close> leave the whole store alone;
  \<^verbatim>\<open>get_stats\<close> writes its \<^verbatim>\<open>Month\<close> column to a copy; \<^verbatim>\<open>filter_data\<close> and
  \<^verbatim>\<open>get_filtered_stats\<close> allocate one copy of the table and filter that. \<^verbatim>\<open>add_column\<close>
  with a fresh name does change the shared table.
\<close>

theorem read_operations_keep_stored_table:
  "app_state_data (snd (get_data s skip limit)) = app_state_data s
   \<and> app_state_data (snd (get_stats lib s)) = app_state_data s
   \<and> app_state_data (snd (filter_data lib s c skip limit)) = app_state_data s
   \<and> locals (snd (filter_data lib s c skip limit)) = locals s @ [app_state_data s]
   \<and> app_state_data (snd (get_filtered_stats lib s c)) = app_state_data s
   \<and> locals (snd (get_filtered_stats lib s c)) = locals s @ [app_state_data s]
   \<and> snd (get_columns s) = s
   \<and> snd (get_filter_options s) = s
   \<and> (name \<notin> set (columns (app_state_data s)) \<longrightarrow>
        app_state_data (snd (add_column s name v)) \<noteq> app_state_data s)"
proof -
  have stats: "app_state_data (snd (get_stats lib s)) = app_state_data s"
    by (simp add: get_stats_store copy_def setitem_def)
  have "name \<notin> set (columns (app_state_data s)) \<Longrightarrow>
        columns (app_state_data (snd (add_column s name v))) \<noteq> columns (app_state_data s)"
    by (simp add: add_column_def setitem_def setitem_frame_def)
  then have added: "name \<notin> set (columns (app_state_data s)) \<longrightarrow>
        app_state_data (snd (add_column s name v)) \<noteq> app_state_data s"
    by metis
  have page: "snd (get_data s skip limit) = s" by (simp add: get_data_def)
  have cols: "snd (get_columns s) = s" by (simp add: get_columns_def)
  have opts: "snd (get_filter_options s) = s" by (simp add: get_filter_options_def Let_def)
  have copied: "app_state_data (snd (copy s AppStateData)) = app_state_data s"
          "locals (snd (copy s AppStateData)) = locals s @ [app_state_data s]"
    by (simp_all add: copy_def)
  show ?thesis
    unfolding filter_data_store get_filtered_stats_store page cols opts copied
    using stats added by simp
qed

theorem read_operations_witness:
  "app_state_data (snd (get_stats demo_lib demo_sales)) = app_state_data demo_sales
   \<and> locals (snd (filter_data demo_lib demo_sales no_criteria 0 100)) = [app_state_data demo_sales]
   \<and> ''Notes'' \<notin> set (columns (app_state_data demo_sales))
   \<and> app_state_data (snd (add_column demo_sales ''Notes'' [])) \<noteq> app_state_data demo_sales"
  using read_operations_keep_stored_table [of demo_sales 0 100 demo_lib no_criteria "''Notes''" "[]"]
  by (simp add: demo_sales_def)

subsection \<open>The filtered view\<close>

lemma zip_map_filter:
  "map fst (filter (\<lambda>(r, c). p c) (zip rs (map f rs))) = filter (\<lambda>r. p (f r)) rs"
  by (induction rs) auto

lemma mask_rows_Inr:
  "mask_rows df name p = Inr v \<longleftrightarrow>
     name \<in> set (columns df) \<and> v = select_rows (\<lambda>r. p (cell_of r name)) df"
  by (auto simp: mask_rows_def getitem_def column_def zip_map_filter select_rows_def)

lemma select_rows_True: "(\<And>r. p r) \<Longrightarrow> select_rows p df = df"
  by (simp add: select_rows_def)

lemma select_rows_select_rows:
  "select_rows p (select_rows q df) = select_rows (\<lambda>r. q r \<and> p r) df"
  by (simp add: select_rows_def)

lemma columns_select_rows [simp]: "columns (select_rows p df) = columns df"
  by (simp add: select_rows_def)

lemma filter_eq_Inr:
  "filter_eq v name df = Inr w \<longleftrightarrow>
     (active v \<longrightarrow> name \<in> set (columns df)) \<and> w = select_rows (cat_ok v name) df"
  by (cases v) (auto simp: filter_eq_def active_def cat_ok_def mask_rows_Inr select_rows_True)

lemma filter_min_Inr:
  "filter_min lib v df = Inr w \<longleftrightarrow>
     (v \<noteq> None \<longrightarrow> ''Total'' \<in> set (columns df)) \<and> w = select_rows (min_ok lib v) df"
  by (cases v) (auto simp: filter_min_def min_ok_def mask_rows_Inr select_rows_True)

lemma filter_max_Inr:
  "filter_max lib v df = Inr w \<longleftrightarrow>
     (v \<noteq> None \<longrightarrow> ''Total'' \<in> set (columns df)) \<and> w = select_rows (max_ok lib v) df"
  by (cases v) (auto simp: filter_max_def max_ok_def mask_rows_Inr select_rows_True)

text \<open>
  A date filter succeeds when the column is there and the bound has no time zone; with a
  time zone it succeeds on a table without rows only, and then only if the comparison of
  an empty column does not raise.
\<close>

lemma compare_date_Inr:
  "compare_date lib cmp x df = Inr w \<longleftrightarrow>
     ''Date'' \<in> set (columns df)
     \<and> ((\<exists>b. to_datetime_infer lib x = Some (Aware b)) \<longrightarrow>
          rows df = [] \<and> \<not> compare_empty_raises lib)
     \<and> w = select_rows (\<lambda>r. case to_datetime_infer lib x of
                                Some (Naive b) \<Rightarrow> cmp b (cell_of r ''Date'')
                              | _ \<Rightarrow> False) df"
proof (cases "to_datetime_infer lib x")
  case None
  then show ?thesis by (simp add: compare_date_def mask_rows_Inr)
next
  case (Some b)
  show ?thesis
  proof (cases b)
    case (Naive t)
    with Some show ?thesis by (simp add: compare_date_def mask_rows_Inr)
  next
    case (Aware t)
    with Some have ex: "(\<exists>b. to_datetime_infer lib x = Some (Aware b)) \<longleftrightarrow> True"
      by blast
    from Some Aware show ?thesis
      unfolding ex by (auto simp: compare_date_def getitem_def column_def select_rows_def)
  qed
qed

lemma date_filter_Inr:
  "(case v of None \<Rightarrow> Inr df | Some x \<Rightarrow> if x \<noteq> [] then compare_date lib cmp x df else Inr df)
     = Inr w \<longleftrightarrow>
     (truthy v \<longrightarrow> ''Date'' \<in> set (columns df))
     \<and> (aware lib v \<longrightarrow> rows df = [] \<and> \<not> compare_empty_raises lib)
     \<and> w = select_rows (date_ok lib cmp v) df"
proof (cases v)
  case None
  then show ?thesis by (auto simp: truthy_def aware_def date_ok_def select_rows_True)
next
  case (Some x)
  show ?thesis
  proof (cases "x = []")
    case True
    with Some show ?thesis by (auto simp: truthy_def aware_def date_ok_def select_rows_True)
  next
    case False
    have a: "aware lib (Some x) \<longleftrightarrow> (\<exists>b. to_datetime_infer lib x = Some (Aware b))"
      using False by (auto simp: aware_def split: option.splits stamp.splits)
    from False Some show ?thesis
      by (simp add: compare_date_Inr truthy_def a date_ok_def)
  qed
qed

lemma filter_from_Inr:
  "filter_from lib v df = Inr w \<longleftrightarrow>
     (truthy v \<longrightarrow> ''Date'' \<in> set (columns df))
     \<and> (aware lib v \<longrightarrow> rows df = [] \<and> \<not> compare_empty_raises lib)
     \<and> w = select_rows (date_ok lib ge_date v) df"
  unfolding filter_from_def by (rule date_filter_Inr)

lemma filter_to_Inr:
  "filter_to lib v df = Inr w \<longleftrightarrow>
     (truthy v \<longrightarrow> ''Date'' \<in> set (columns df))
     \<and> (aware lib v \<longrightarrow> rows df = [] \<and> \<not> compare_empty_raises lib)
     \<and> w = select_rows (date_ok lib le_date v) df"
  unfolding filter_to_def by (rule date_filter_Inr)

lemma and_then_Inr: "and_then m f = Inr w \<longleftrightarrow> (\<exists>x. m = Inr x \<and> f x = Inr w)"
  by (cases m) (auto simp: and_then_def)

lemma and_then_Inr_eq [simp]: "and_then (Inr x) f = f x"
  by (simp add: and_then_def)

lemma and_then_Inl_eq [simp]: "and_then (Inl e) f = Inl e"
  by (simp add: and_then_def)

text \<open>The view after the first eight filter statements, which cannot fail on a bound.\<close>

lemma selected_nested:
  "select_rows (row_selected lib c) df =
     select_rows (date_ok lib le_date (to_date c)) (select_rows (date_ok lib ge_date (from_date c))
       (select_rows (max_ok lib (max_total c)) (select_rows (min_ok lib (min_total c))
         (select_rows (cat_ok (payment_method c) ''Payment Method'')
           (select_rows (cat_ok (state c) ''State'')
             (select_rows (cat_ok (province c) ''Shipping Province'')
               (select_rows (cat_ok (country c) ''Shipping Country'')
                 (select_rows (cat_ok (delivery_status c) ''Deliver Status'')
                   (select_rows (cat_ok (status c) ''Status'') df)))))))))"
  unfolding select_rows_select_rows
  by (rule arg_cong [where f = "\<lambda>p. select_rows p df"])
     (auto simp: row_selected_def fun_eq_iff)

text \<open>
  When the ten filter statements succeed, the columns they read are there and the view
  holds the rows that pass every criterion, in stored order.
\<close>

lemma apply_filters_sound:
  assumes "apply_filters lib c df = Inr w"
  shows "columns_present c df \<and> w = select_rows (row_selected lib c) df"
  using assms
  unfolding apply_filters_def and_then_Inr filter_eq_Inr filter_min_Inr filter_max_Inr
    filter_from_Inr filter_to_Inr selected_nested columns_present_def
  by (elim exE conjE) (simp only: simp_thms columns_select_rows)

text \<open>
  They do succeed when the columns they read are there and no date bound has a time zone.
\<close>

lemma apply_filters_complete:
  assumes "columns_present c df" "\<not> aware_bound lib c"
  shows "apply_filters lib c df = Inr (select_rows (row_selected lib c) df)"
proof -
  from assms(2) have na: "\<not> aware lib (from_date c)" "\<not> aware lib (to_date c)"
    by (simp_all add: aware_bound_def)
  show ?thesis
    using assms(1)
    unfolding apply_filters_def and_then_Inr filter_eq_Inr filter_min_Inr filter_max_Inr
      filter_from_Inr filter_to_Inr selected_nested columns_present_def
    by (simp only: simp_thms columns_select_rows ex_simps conj_assoc na)
qed

lemma deref_copy: "deref (snd (copy s AppStateData)) (fst (copy s AppStateData)) = app_state_data s"
  by (simp add: copy_def)

subsection \<open>What loading stores\<close>

lemma length_to_numeric_coerce [simp]: "length (to_numeric_coerce lib col) = length col"
  by (simp add: to_numeric_coerce_def)

lemma length_coerced [simp]: "length (coerced lib col) = length col"
  by (simp add: coerced_def)

lemma number_fillna_0: "number c \<or> c = NaN \<Longrightarrow> number (fillna_0 c)"
  by (auto simp: fillna_0_def isna_def number_def)

lemma to_numeric_coerce_cells:
  "c \<in> set (to_numeric_coerce lib col) \<Longrightarrow> number c \<or> c = NaN"
  by (auto simp: to_numeric_coerce_def list_all_iff numeric_def split: if_splits)

lemma coerced_number: "c \<in> set (coerced lib col) \<Longrightarrow> number c"
proof -
  assume "c \<in> set (coerced lib col)"
  then obtain c0 where c0: "c0 \<in> set (to_numeric_coerce lib col)" and c: "c = fillna_0 c0"
    by (auto simp: coerced_def)
  from c0 have "number c0 \<or> c0 = NaN" by (rule to_numeric_coerce_cells)
  with c show ?thesis by (simp add: number_fillna_0)
qed


lemma loaded_date_cases: "dated (loaded_date c)"
  by (cases c) (auto simp: loaded_date_def to_datetime_coerce_def dated_def split: option.splits)

lemma loaded_date_not_NaN: "loaded_date c \<noteq> NaN"
  by (cases c) (auto simp: loaded_date_def to_datetime_coerce_def split: option.splits)

lemma cell_of_update: "cell_of (r(n \<mapsto> v)) m = (if m = n then v else cell_of r m)"
  by (simp add: cell_of_def)

lemma rows_setitem_frame:
  "length (rows (setitem_frame df name vals)) = min (length (rows df)) (length vals)"
  by (simp add: setitem_frame_def)

lemma column_setitem_frame:
  assumes "length vals = length (rows df)"
  shows "column (setitem_frame df name vals) n = (if n = name then vals else column df n)"
proof -
  have "map (\<lambda>r. cell_of r n) (map (\<lambda>(r, v). r(name \<mapsto> v)) (zip rs vs))
        = (if n = name then vs else map (\<lambda>r. cell_of r n) rs)"
    if "length vs = length rs" for rs :: "row list" and vs
    using that by (induction rs vs rule: list_induct2') (auto simp: cell_of_update)
  from this [OF assms] show ?thesis by (simp add: setitem_frame_def column_def)
qed

lemma column_fillna_str:
  "name \<in> set (columns df) \<Longrightarrow>
   column (fillna_str df) name = map (\<lambda>c. if c = NaN then Str [] else c) (column df name)"
  by (simp add: fillna_str_def column_def cell_of_def)

lemma length_column [simp]: "length (column df name) = length (rows df)"
  by (simp add: column_def)

lemma map_id_if: "(\<And>c. c \<in> set xs \<Longrightarrow> c \<noteq> NaN) \<Longrightarrow> map (\<lambda>c. if c = NaN then Str [] else c) xs = xs"
  by (induction xs) auto

lemma load_frame_Inr:
  assumes "load_frame lib csv = Inr df"
  shows "\<exists>df0. csv = Some df0
     \<and> {''Date'', ''Total'', ''Quantity''} \<subseteq> set (columns df0)
     \<and> columns df = columns df0
     \<and> length (rows df) = length (rows df0)
     \<and> column df ''Date'' = map loaded_date (column df0 ''Date'')
     \<and> column df ''Total'' = coerced lib (column df0 ''Total'')
     \<and> column df ''Quantity'' = coerced lib (column df0 ''Quantity'')"
proof -
  from assms obtain df0 where csv: "csv = Some df0"
    by (cases csv) (auto simp: load_frame_def)
  define df1 where "df1 = setitem_frame df0 ''Date'' (map loaded_date (column df0 ''Date''))"
  define df2 where "df2 = setitem_frame df1 ''Total'' (coerced lib (column df1 ''Total''))"
  define df3 where "df3 = setitem_frame df2 ''Quantity'' (coerced lib (column df2 ''Quantity''))"
  have l1: "length (rows df1) = length (rows df0)"
    by (simp add: df1_def rows_setitem_frame)
  have l2: "length (rows df2) = length (rows df0)"
    by (simp add: df2_def rows_setitem_frame l1)
  have l3: "length (rows df3) = length (rows df0)"
    by (simp add: df3_def rows_setitem_frame l2)
  have col1: "column df1 n = (if n = ''Date'' then map loaded_date (column df0 ''Date'') else column df0 n)" for n
    unfolding df1_def by (rule column_setitem_frame) simp
  have col2: "column df2 n = (if n = ''Total'' then coerced lib (column df1 ''Total'') else column df1 n)" for n
    unfolding df2_def by (rule column_setitem_frame) (simp add: l1)
  have col3: "column df3 n = (if n = ''Quantity'' then coerced lib (column df2 ''Quantity'') else column df2 n)" for n
    unfolding df3_def by (rule column_setitem_frame) (simp add: l2)
  have step: "load_frame lib csv =
     (if ''Date'' \<in> set (columns df0) then
        if ''Total'' \<in> set (columns df1) then
          if ''Quantity'' \<in> set (columns df2) then Inr (fillna_str df3)
          else Inl (KeyError ''Quantity'')
        else Inl (KeyError ''Total'')
      else Inl (KeyError ''Date''))"
    unfolding load_frame_def csv getitem_def Let_def df1_def df2_def df3_def
    by (simp add: loaded_date_def [abs_def] coerced_def [abs_def])
  from assms step have d: "''Date'' \<in> set (columns df0)"
    by (simp split: if_splits)
  then have c1: "columns df1 = columns df0" by (simp add: df1_def setitem_frame_def)
  from assms step d have t: "''Total'' \<in> set (columns df0)"
    by (simp add: c1 split: if_splits)
  then have c2: "columns df2 = columns df0" by (simp add: df2_def setitem_frame_def c1)
  from assms step d t have q: "''Quantity'' \<in> set (columns df0)"
    by (simp add: c1 c2 split: if_splits)
  then have c3: "columns df3 = columns df0" by (simp add: df3_def setitem_frame_def c2)
  from assms step d t q have df: "df = fillna_str df3"
    by (simp add: c1 c2)
  have cols: "columns df = columns df0" "length (rows df) = length (rows df0)"
    using c3 l3 by (simp_all add: df fillna_str_def)
  have nn_num: "c \<in> set (coerced lib xs) \<Longrightarrow> c \<noteq> NaN" for c xs
    using coerced_number [of c lib xs] by (auto simp: number_def)
  have "column df3 ''Date'' = map loaded_date (column df0 ''Date'')"
    by (simp add: col3 col2 col1)
  then have "column df ''Date'' = map loaded_date (column df0 ''Date'')"
    unfolding df using d c3
    by (subst column_fillna_str) (simp_all add: map_id_if loaded_date_not_NaN)
  moreover have "column df3 ''Total'' = coerced lib (column df0 ''Total'')"
    by (simp add: col3 col2 col1)
  then have "column df ''Total'' = coerced lib (column df0 ''Total'')"
    unfolding df using t c3
    by (subst column_fillna_str) (simp_all add: map_id_if nn_num)
  moreover have "column df3 ''Quantity'' = coerced lib (column df0 ''Quantity'')"
    by (simp add: col3 col2 col1)
  then have "column df ''Quantity'' = coerced lib (column df0 ''Quantity'')"
    unfolding df using q c3
    by (subst column_fillna_str) (simp_all add: map_id_if nn_num)
  ultimately show ?thesis
    using csv d t q cols by simp
qed

lemma load_frame_loadable:
  "(loadable csv \<longrightarrow> (\<exists>df. load_frame lib csv = Inr df))
   \<and> (\<not> loadable csv \<longrightarrow> (\<exists>e. load_frame lib csv = Inl e))"
proof (cases "load_frame lib csv")
  case (Inl e)
  have "\<not> loadable csv"
  proof
    assume "loadable csv"
    then obtain df0 where csv: "csv = Some df0"
      and c: "''Date'' \<in> set (columns df0)" "''Total'' \<in> set (columns df0)"
        "''Quantity'' \<in> set (columns df0)"
      by (cases csv) (auto simp: loadable_def)
    have "\<exists>df. load_frame lib csv = Inr df"
      unfolding load_frame_def csv getitem_def Let_def using c
      by (simp add: setitem_frame_def)
    with Inl show False by simp
  qed
  with Inl show ?thesis by simp
next
  case (Inr df)
  from load_frame_Inr [OF Inr] have "loadable csv" by (auto simp: loadable_def)
  with Inr show ?thesis by simp
qed

text \<open>
  A raw table with the three columns is stored with its rows in order, the dates as the
  load format reads them and the two numeric columns coerced; any other outcome of reading
  the file leaves the empty table.
\<close>

lemma loaded_frame:
  "(loadable csv \<longrightarrow>
      length (rows (app_state_data (startup_db_client lib csv))) = length (rows (the csv))
      \<and> columns (app_state_data (startup_db_client lib csv)) = columns (the csv)
      \<and> {''Date'', ''Total'', ''Quantity''} \<subseteq> set (columns (app_state_data (startup_db_client lib csv)))
      \<and> column (app_state_data (startup_db_client lib csv)) ''Date''
          = map loaded_date (column (the csv) ''Date'')
      \<and> column (app_state_data (startup_db_client lib csv)) ''Total''
          = coerced lib (column (the csv) ''Total'')
      \<and> column (app_state_data (startup_db_client lib csv)) ''Quantity''
          = coerced lib (column (the csv) ''Quantity''))
   \<and> (\<not> loadable csv \<longrightarrow> app_state_data (startup_db_client lib csv) = DataFrame_empty)"
proof (cases "loadable csv")
  case True
  then obtain df where df: "load_frame lib csv = Inr df"
    using load_frame_loadable by blast
  from load_frame_Inr [OF df] True df show ?thesis
    by (auto simp: startup_db_client_def)
next
  case False
  then obtain e where "load_frame lib csv = Inl e"
    using load_frame_loadable by blast
  with False show ?thesis by (simp add: startup_db_client_def)
qed

lemma loaded_columns:
  assumes "loadable csv"
  shows "''Date'' \<in> set (columns (app_state_data (startup_db_client lib csv)))"
    and "''Total'' \<in> set (columns (app_state_data (startup_db_client lib csv)))"
    and "''Quantity'' \<in> set (columns (app_state_data (startup_db_client lib csv)))"
  using loaded_frame [of csv lib] assms by blast+

lemma not_loaded:
  "\<not> loadable csv \<Longrightarrow> app_state_data (startup_db_client lib csv) = DataFrame_empty"
  using loaded_frame [of csv lib] by blast

lemma failed_load: "app_state_data (startup_db_client lib None) = DataFrame_empty"
  by (simp add: startup_db_client_def load_frame_def)

text \<open>
  Every table that the program can store is well typed: loading leaves one, and
  \<^verbatim>\<open>add_column\<close> keeps it so.
\<close>

lemma startup_well_typed: "well_typed (app_state_data (startup_db_client lib csv))"
proof (cases "loadable csv")
  case True
  let ?df = "app_state_data (startup_db_client lib csv)"
  from loaded_frame [of csv lib] True
  have cols: "''Date'' \<in> set (columns ?df)" "''Total'' \<in> set (columns ?df)"
      "''Quantity'' \<in> set (columns ?df)"
    and d: "column ?df ''Date'' = map loaded_date (column (the csv) ''Date'')"
    and t: "column ?df ''Total'' = coerced lib (column (the csv) ''Total'')"
    and q: "column ?df ''Quantity'' = coerced lib (column (the csv) ''Quantity'')"
    by blast+
  have "dated (cell_of r ''Date'') \<and> number (cell_of r ''Total'') \<and> number (cell_of r ''Quantity'')"
    if "r \<in> set (rows ?df)" for r
  proof -
    from that have "cell_of r ''Date'' \<in> set (column ?df ''Date'')"
      "cell_of r ''Total'' \<in> set (column ?df ''Total'')"
      "cell_of r ''Quantity'' \<in> set (column ?df ''Quantity'')"
      by (simp_all add: column_def)
    then show ?thesis
      unfolding d t q using loaded_date_cases coerced_number by auto
  qed
  with cols show ?thesis by (simp add: well_typed_def)
next
  case False
  with loaded_frame [of csv lib] show ?thesis
    by (simp add: well_typed_def DataFrame_empty_def)
qed

lemma add_column_well_typed:
  assumes "well_typed (app_state_data s)"
  shows "well_typed (app_state_data (snd (add_column s name v)))"
proof (cases "name \<in> set (columns (app_state_data s))")
  case True
  with assms show ?thesis by (simp add: add_column_def)
next
  case False
  have rs: "rows (app_state_data (snd (add_column s name v)))
            = map (\<lambda>r. r(name \<mapsto> Str v)) (rows (app_state_data s))"
    and cs: "columns (app_state_data (snd (add_column s name v)))
            = columns (app_state_data s) @ [name]"
    using False
    by (simp_all add: add_column_def setitem_def setitem_frame_def zip_replicate_update)
  show ?thesis
  proof (cases "rows (app_state_data s) = []")
    case True
    then show ?thesis by (simp add: well_typed_def rs)
  next
    case nonempty: False
    with assms have cols: "''Date'' \<in> set (columns (app_state_data s))"
        "''Total'' \<in> set (columns (app_state_data s))"
        "''Quantity'' \<in> set (columns (app_state_data s))"
      and typed: "\<And>r. r \<in> set (rows (app_state_data s)) \<Longrightarrow>
         dated (cell_of r ''Date'') \<and> number (cell_of r ''Total'')
         \<and> number (cell_of r ''Quantity'')"
      by (auto simp: well_typed_def)
    from cols False have ne: "name \<noteq> ''Date''" "name \<noteq> ''Total''" "name \<noteq> ''Quantity''"
      by auto
    show ?thesis
      unfolding well_typed_def rs cs using cols typed ne
      by (auto simp: cell_of_update)
  qed
qed

subsection \<open>Sums, and when \<^verbatim>\<open>int\<close> raises\<close>

lemma filter_int64: "list_all is_int64 col \<Longrightarrow> filter (\<lambda>c. \<not> isna c) col = col"
  by (induction col) (auto simp: is_int64_def isna_def split: cell.splits)

lemma series_sum_int64:
  "list_all is_int64 col \<Longrightarrow>
   series_sum lib col = Int64 (wrap_int64 (sum_list (map int_of col)))"
  by (simp add: series_sum_def filter_int64)

lemma series_sum_Nil [simp]: "series_sum lib [] = Int64 0"
  by (simp add: series_sum_def wrap_int64_def)

lemma series_sum_cases: "number (series_sum lib col) \<or> series_sum lib col = NaN"
  by (simp add: series_sum_def Let_def numeric_def number_def)

lemma quantity_int_raises:
  "raises (quantity_int lib df) \<longleftrightarrow>
     series_sum lib (column df ''Quantity'') \<in> {PosInf, NegInf, NaN}"
  using series_sum_cases [of lib "column df ''Quantity''"]
  by (cases "series_sum lib (column df ''Quantity'')")
     (simp_all add: quantity_int_def py_int_def raises_def number_def)

lemma quantity_int_int64:
  "list_all is_int64 (column df ''Quantity'') \<Longrightarrow>
   quantity_int lib df = Inr (wrap_int64 (sum_list (map int_of (column df ''Quantity''))))"
  by (simp add: quantity_int_def series_sum_int64 py_int_def)


lemma quantity_int_no_rows: "rows df = [] \<Longrightarrow> quantity_int lib df = Inr 0"
  by (simp add: quantity_int_def column_def py_int_def)

subsection \<open>Results of the filter endpoints\<close>

lemma fst_case_sum:
  "fst (case x of Inl e \<Rightarrow> (f e, t) | Inr r \<Rightarrow> (g r, t)) = (case x of Inl e \<Rightarrow> f e | Inr r \<Rightarrow> g r)"
  by (cases x) auto

text \<open>
  \<^verbatim>\<open>filter_data\<close> returns the page of the view when the filters succeed, the view has the
  \<^verbatim>\<open>Total\<close> and \<^verbatim>\<open>Quantity\<close> columns and \<^verbatim>\<open>int\<close> of the sum of its quantities does not raise;
  in every other case it answers HTTP 500.
\<close>

lemma filter_data_fst:
  "fst (filter_data lib s c skip limit) =
     (case apply_filters lib c (app_state_data s) of
        Inl e \<Rightarrow> Inl (HTTPException 500)
      | Inr view \<Rightarrow>
          if ''Total'' \<in> set (columns view) \<and> ''Quantity'' \<in> set (columns view)
             \<and> \<not> raises (quantity_int lib view)
          then Inr (to_dict_records (iloc view skip (skip + limit)))
          else Inl (HTTPException 500))"
  unfolding filter_data_def Let_def case_prod_beta deref_copy fst_case_sum
  by (cases "apply_filters lib c (app_state_data s)")
     (auto simp: getitem_def quantity_int_def raises_def and_then_def split: sum.splits)

lemma get_filtered_stats_fst:
  "fst (get_filtered_stats lib s c) =
     (case apply_filters lib c (app_state_data s) of
        Inl e \<Rightarrow> Inl (HTTPException 500)
      | Inr view \<Rightarrow>
          (case quantity_int lib view of
             Inl e \<Rightarrow> Inl (HTTPException 500)
           | Inr q \<Rightarrow>
               if {''Total'', ''Quantity'', ''State'', ''Status''} \<subseteq> set (columns view)
               then Inr \<lparr>total_sales = py_float lib (series_sum lib (column view ''Total'')),
                         avg_order_value =
                           (if 0 < length (rows view)
                            then py_float lib (series_mean lib (column view ''Total''))
                            else Int64 0),
                         total_quantity = q,
                         total_count = length (rows view),
                         state_breakdown =
                           groupby_dict (column view ''State'') (column view ''Total'')
                             (group_sum lib),
                         status_breakdown = value_counts_dict (column view ''Status'')\<rparr>
               else Inl (HTTPException 500)))"
  unfolding get_filtered_stats_def Let_def case_prod_beta deref_copy fst_case_sum
  by (cases "apply_filters lib c (app_state_data s)")
     (auto simp: getitem_def quantity_int_def and_then_def split: sum.splits)


lemma filter_data_Inr:
  assumes "fst (filter_data lib s c skip limit) = Inr page"
  shows "page = to_dict_records
                  (iloc (select_rows (row_selected lib c) (app_state_data s)) skip (skip + limit))"
proof -
  from assms obtain view where v: "apply_filters lib c (app_state_data s) = Inr view"
    and p: "page = to_dict_records (iloc view skip (skip + limit))"
    by (auto simp: filter_data_fst split: sum.splits if_splits)
  from apply_filters_sound [OF v] p show ?thesis by simp
qed


lemma demo_lib_fields [simp]:
  "to_numeric demo_lib = demo_numeral" "to_datetime_other demo_lib = demo_other_date"
  "sort_values demo_lib = sort_by_count" "Series_sum demo_lib = demo_sum"
  "Series_mean demo_lib = demo_mean" "groupby_sum demo_lib = demo_sum"
  "groupby_mean demo_lib = demo_mean" "true_divide demo_lib = demo_divide"
  "round_2 demo_lib = (\<lambda>c. c)" "float_of_int demo_lib = (\<lambda>n. Num (of_int n))"
  "compare_empty_raises demo_lib = True"
  by (simp_all add: demo_lib_def)

lemma huge_gt: "2 < huge"
  by (simp add: huge_def)

lemma huge_neq [simp]: "huge \<noteq> 1" "1 \<noteq> huge" "huge \<noteq> 3 / 2" "huge \<noteq> 2"
  using huge_gt by auto

lemma demo_sales_well_typed: "well_typed (app_state_data demo_sales)"
  by (simp add: well_typed_def demo_sales_def cell_of_def dated_def number_def)

lemma demo_sales_quantity: "quantity_int demo_lib (app_state_data demo_sales) = Inr 2"
  by (simp add: quantity_int_def demo_sales_def column_def cell_of_def series_sum_def isna_def
        is_int64_def numeric_def number_def demo_sum_def rat_of_def py_int_def toward_zero_def
        floor_eq_iff)

lemma overflow_loaded:
  "columns (app_state_data (startup_db_client demo_lib (Some demo_csv_overflow)))
     = [''Date'', ''Total'', ''Quantity'']"
  "length (rows (app_state_data (startup_db_client demo_lib (Some demo_csv_overflow)))) = 2"
  "column (app_state_data (startup_db_client demo_lib (Some demo_csv_overflow))) ''Quantity''
     = [Num huge, Num huge]"
proof -
  let ?df = "app_state_data (startup_db_client demo_lib (Some demo_csv_overflow))"
  have l: "loadable (Some demo_csv_overflow)"
    by (simp add: loadable_def demo_csv_overflow_def)
  have q: "coerced demo_lib [Num huge, Num huge] = [Num huge, Num huge]"
    by (simp add: coerced_def to_numeric_coerce_def number_def fillna_0_def isna_def)
  have raw: "column demo_csv_overflow ''Quantity'' = [Num huge, Num huge]"
    "columns demo_csv_overflow = [''Date'', ''Total'', ''Quantity'']"
    "length (rows demo_csv_overflow) = 2"
    by (simp_all add: demo_csv_overflow_def column_def cell_of_def)
  from loaded_frame [of "Some demo_csv_overflow" demo_lib, unfolded option.sel] l
  have "length (rows ?df) = length (rows demo_csv_overflow)"
    and "columns ?df = columns demo_csv_overflow"
    and "column ?df ''Quantity'' = coerced demo_lib (column demo_csv_overflow ''Quantity'')"
    by blast+
  then show "columns ?df = [''Date'', ''Total'', ''Quantity'']" "length (rows ?df) = 2"
    "column ?df ''Quantity'' = [Num huge, Num huge]"
    by (simp_all only: raw q)
qed

lemma overflow_raises:
  "quantity_int demo_lib (app_state_data (startup_db_client demo_lib (Some demo_csv_overflow)))
     = Inl OverflowError"
  by (simp add: quantity_int_def overflow_loaded series_sum_def isna_def is_int64_def
        demo_sum_def numeric_def number_def py_int_def)

subsection \<open>No filter\<close>

lemma absent_or_All_passes: "absent_or_All v \<Longrightarrow> cat_ok v name r \<and> \<not> active v"
  by (auto simp: absent_or_All_def cat_ok_def active_def)

lemma no_filter_selects_all:
  assumes "no_filter c"
  shows "row_selected lib c r" and "columns_present c df" and "\<not> aware_bound lib c"
proof -
  from assms have cats: "absent_or_All (status c)" "absent_or_All (delivery_status c)"
      "absent_or_All (country c)" "absent_or_All (province c)" "absent_or_All (state c)"
      "absent_or_All (payment_method c)"
    and bounds: "from_date c = None" "to_date c = None" "min_total c = None"
      "max_total c = None"
    by (simp_all add: no_filter_def)
  show "row_selected lib c r"
    unfolding row_selected_def
    by (simp add: cats [THEN absent_or_All_passes] bounds min_ok_def max_ok_def date_ok_def)
  show "columns_present c df"
    unfolding columns_present_def
    by (simp add: cats [THEN absent_or_All_passes] bounds truthy_def)
  show "\<not> aware_bound lib c"
    by (simp add: aware_bound_def aware_def bounds)
qed

lemma length_py_slice_0: "0 \<le> n \<Longrightarrow> length (py_slice 0 n xs) = min (nat n) (length xs)"
  by (auto simp: py_slice_def Let_def min_def)

text \<open>
  C7, as stated, fails in two ways. On the empty table that a failed load leaves behind,
  \<^verbatim>\<open>filter_data\<close> without any criterion answers HTTP 500, because the summary values it
  builds read the \<^verbatim>\<open>Total\<close> column, while \<^verbatim>\<open>get_data\<close> returns the empty page. And on the
  loaded table with two quantities of about \<^verbatim>\<open>1.3e308\<close> the sum of the quantities is infinite,
  \<^verbatim>\<open>int\<close> of it raises and \<^verbatim>\<open>filter_data\<close> answers HTTP 500, while \<^verbatim>\<open>get_data\<close> returns the
  two rows.
\<close>

theorem no_filter_counterexample:
  "no_filter no_criteria
   \<and> fst (filter_data demo_lib (startup_db_client demo_lib None) no_criteria 0 100)
       = Inl (HTTPException 500)
   \<and> fst (get_data (startup_db_client demo_lib None) 0 100) = Inr []
   \<and> fst (filter_data demo_lib (startup_db_client demo_lib (Some demo_csv_overflow))
             no_criteria 0 100) = Inl (HTTPException 500)
   \<and> map_sum id length (fst (get_data (startup_db_client demo_lib (Some demo_csv_overflow)) 0 100))
       = Inr 2"
proof -
  let ?s = "startup_db_client demo_lib (Some demo_csv_overflow)"
  have a: "no_filter no_criteria"
    by (simp add: no_filter_def absent_or_All_def no_criteria_def)
  have ap: "apply_filters demo_lib no_criteria df = Inr df" for df
    using apply_filters_complete [of no_criteria df demo_lib] no_filter_selects_all [OF a]
    by (simp add: select_rows_True)
  have b: "fst (filter_data demo_lib (startup_db_client demo_lib None) no_criteria 0 100)
       = Inl (HTTPException 500)"
    by (simp add: filter_data_fst ap failed_load DataFrame_empty_def)
  have c: "fst (get_data (startup_db_client demo_lib None) 0 100) = Inr []"
    by (simp add: get_data_def failed_load DataFrame_empty_def iloc_def py_slice_def
          to_dict_records_def)
  have d: "fst (filter_data demo_lib ?s no_criteria 0 100) = Inl (HTTPException 500)"
    by (simp add: filter_data_fst ap overflow_raises raises_def)
  have e: "map_sum id length (fst (get_data ?s 0 100)) = Inr 2"
    by (simp add: get_data_def iloc_def to_dict_records_def length_py_slice_0 overflow_loaded)
  show ?thesis using a b c d e by blast
qed

text \<open>
  C7, amended. Criteria whose categorical fields are absent or \<^verbatim>\<open>"All"\<close> and whose bounds
  are absent give a view equal to the table. The filtered page equals the unfiltered page,
  for every \<open>skip\<close> and \<open>limit\<close>, on every table that has the \<^verbatim>\<open>Total\<close> and \<^verbatim>\<open>Quantity\<close>
  columns and whose quantities have a finite sum; on any other table the filtered page
  request answers HTTP 500. The sum is not finite when it is an infinity or nan; the sum of
  an integer column is always finite.
\<close>

theorem no_filter_same_page:
  assumes "no_filter c"
  shows "apply_filters lib c (app_state_data s) = Inr (app_state_data s)
     \<and> (''Total'' \<in> set (columns (app_state_data s))
        \<and> ''Quantity'' \<in> set (columns (app_state_data s))
        \<and> \<not> raises (quantity_int lib (app_state_data s)) \<longrightarrow>
          fst (filter_data lib s c skip limit) = fst (get_data s skip limit))
     \<and> (''Total'' \<notin> set (columns (app_state_data s))
        \<or> ''Quantity'' \<notin> set (columns (app_state_data s))
        \<or> raises (quantity_int lib (app_state_data s)) \<longrightarrow>
          fst (filter_data lib s c skip limit) = Inl (HTTPException 500))
     \<and> (raises (quantity_int lib (app_state_data s)) \<longleftrightarrow>
          series_sum lib (column (app_state_data s) ''Quantity'') \<in> {PosInf, NegInf, NaN})
     \<and> (list_all is_int64 (column (app_state_data s) ''Quantity'') \<longrightarrow>
          \<not> raises (quantity_int lib (app_state_data s)))"
proof -
  have app: "apply_filters lib c (app_state_data s) = Inr (app_state_data s)"
    using apply_filters_complete [of c "app_state_data s" lib] no_filter_selects_all [OF assms]
    by (simp add: select_rows_True)
  have int: "list_all is_int64 (column (app_state_data s) ''Quantity'') \<Longrightarrow>
          \<not> raises (quantity_int lib (app_state_data s))"
    by (simp add: quantity_int_int64 raises_def)
  show ?thesis
    using int by (auto simp: app filter_data_fst get_data_def quantity_int_raises)
qed

theorem no_filter_same_page_witness:
  "no_filter (no_criteria\<lparr>status := Some ''All''\<rparr>)
   \<and> ''Total'' \<in> set (columns (app_state_data demo_sales))
   \<and> ''Quantity'' \<in> set (columns (app_state_data demo_sales))
   \<and> \<not> raises (quantity_int demo_lib (app_state_data demo_sales))
   \<and> fst (filter_data demo_lib demo_sales (no_criteria\<lparr>status := Some ''All''\<rparr>) 1 5)
       = fst (get_data demo_sales 1 5)
   \<and> raises (quantity_int demo_lib
               (app_state_data (startup_db_client demo_lib (Some demo_csv_overflow))))
   \<and> fst (filter_data demo_lib (startup_db_client demo_lib (Some demo_csv_overflow))
             (no_criteria\<lparr>status := Some ''All''\<rparr>) 1 5) = Inl (HTTPException 500)"
proof -
  have nf: "no_filter (no_criteria\<lparr>status := Some ''All''\<rparr>)"
    by (simp add: no_filter_def absent_or_All_def no_criteria_def)
  have a: "''Total'' \<in> set (columns (app_state_data demo_sales))"
    and b: "''Quantity'' \<in> set (columns (app_state_data demo_sales))"
    by (simp_all add: demo_sales_def)
  have q: "\<not> raises (quantity_int demo_lib (app_state_data demo_sales))"
    by (simp add: demo_sales_quantity raises_def)
  have r: "raises (quantity_int demo_lib
               (app_state_data (startup_db_client demo_lib (Some demo_csv_overflow))))"
    by (simp add: overflow_raises raises_def)
  show ?thesis
    using nf a b q r
      no_filter_same_page [OF nf, where s = demo_sales and skip = 1 and limit = 5
        and lib = demo_lib]
      no_filter_same_page [OF nf, where s = "startup_db_client demo_lib (Some demo_csv_overflow)"
        and skip = 1 and limit = 5 and lib = demo_lib]
    by blast
qed

subsection \<open>A date bound that does not parse\<close>

lemma py_slice_Nil [simp]: "py_slice a b [] = []"
  by (simp add: py_slice_def)



lemma py_float_0 [simp]: "py_float lib (Int64 0) = Num 0"
  by (simp add: py_float_def)





lemma demo_sales_columns:
  "columns (app_state_data demo_sales) = [''Date'', ''Total'', ''Quantity'', ''Status'', ''State'']"
  "length (rows (app_state_data demo_sales)) = 2"
  by (simp_all add: demo_sales_def)

lemma dates_only_criteria:
  assumes "dates_only c"
  shows "row_selected lib c r
           \<longleftrightarrow> date_ok lib ge_date (from_date c) r \<and> date_ok lib le_date (to_date c) r"
    and "columns_present c df
           \<longleftrightarrow> (truthy (from_date c) \<or> truthy (to_date c) \<longrightarrow> ''Date'' \<in> set (columns df))"
  using assms
  by (auto simp: dates_only_def row_selected_def columns_present_def cat_ok_def min_ok_def
        max_ok_def active_def)




subsection \<open>The empty string as a categorical filter value\<close>

lemma filter_eq_pass: "v \<in> pass_all_values \<Longrightarrow> filter_eq v name df = Inr df"
  by (auto simp: pass_all_values_def filter_eq_def)

lemma None_passes [simp]: "None \<in> pass_all_values"
  by (simp add: pass_all_values_def)

lemma filter_results_cong:
  assumes "\<And>df. apply_filters lib c df = apply_filters lib c' df"
  shows "filter_data lib s c skip limit = filter_data lib s c' skip limit"
    and "get_filtered_stats lib s c = get_filtered_stats lib s c'"
  by (simp_all add: filter_data_def get_filtered_stats_def assms)

lemma set_py_slice: "set (py_slice a b xs) \<subseteq> set xs"
  unfolding py_slice_def Let_def
  by (meson set_take_subset set_drop_subset subset_trans)

lemma page_row_cell:
  assumes "fst (filter_data lib s c skip limit) = Inr page" "r \<in> set page" "(name, x) \<in> set r"
  shows "\<exists>r0 \<in> set (rows (app_state_data s)). row_selected lib c r0 \<and> x = cell_of r0 name"
proof -
  from filter_data_Inr [OF assms(1)] assms(2)
  obtain r0 where r0: "r0 \<in> set (py_slice skip (skip + limit)
        (filter (row_selected lib c) (rows (app_state_data s))))"
      and r: "r = map (\<lambda>k. (k, cell_of r0 k)) (columns (app_state_data s))"
    by (auto simp: to_dict_records_def iloc_def select_rows_def)
  from r0 have "r0 \<in> set (filter (row_selected lib c) (rows (app_state_data s)))"
    by (rule set_py_slice [THEN subsetD])
  moreover from r assms(3) have "x = cell_of r0 name" by auto
  ultimately show ?thesis by auto
qed

lemma cat_ok_empty_cell:
  "cat_ok v name r \<Longrightarrow> cell_of r name = Str [] \<Longrightarrow> v \<in> pass_all_values"
  by (auto simp: cat_ok_def pass_all_values_def split: option.splits)

lemma empty_cell_in_page:
  assumes "fst (filter_data lib s c skip limit) = Inr page" "r \<in> set page" "(name, Str []) \<in> set r"
    and "\<And>r0. row_selected lib c r0 \<Longrightarrow> cat_ok v name r0"
  shows "v \<in> pass_all_values"
  using page_row_cell [OF assms(1-3)] assms(4) cat_ok_empty_cell by metis

text \<open>
  A row that passes the criteria with the empty string in the column of a field still
  passes when that cell is changed: the field does not filter, and no other criterion
  reads the column.
\<close>

lemma cat_ok_update:
  "n \<noteq> name \<Longrightarrow> cat_ok v n (r(name \<mapsto> x)) = cat_ok v n r"
  "cat_ok v name r \<Longrightarrow> cell_of r name = Str [] \<Longrightarrow> cat_ok v name (r(name \<mapsto> x))"
  by (auto simp: cat_ok_def cell_of_update split: option.splits)

lemma bound_ok_update:
  "name \<noteq> ''Total'' \<Longrightarrow> min_ok lib m (r(name \<mapsto> x)) = min_ok lib m r"
  "name \<noteq> ''Total'' \<Longrightarrow> max_ok lib m (r(name \<mapsto> x)) = max_ok lib m r"
  "name \<noteq> ''Date'' \<Longrightarrow> date_ok lib cmp v (r(name \<mapsto> x)) = date_ok lib cmp v r"
  by (auto simp: min_ok_def max_ok_def date_ok_def cell_of_update
        cong: option.case_cong stamp.case_cong)

lemma row_selected_update:
  assumes "name \<in> set field_columns" "row_selected lib c r" "empty_cell name r"
  shows "row_selected lib c (r(name \<mapsto> x))"
proof -
  from assms(2) have c: "cat_ok (status c) ''Status'' r" "cat_ok (delivery_status c) ''Deliver Status'' r"
    "cat_ok (country c) ''Shipping Country'' r" "cat_ok (province c) ''Shipping Province'' r"
    "cat_ok (state c) ''State'' r" "cat_ok (payment_method c) ''Payment Method'' r"
    and b: "min_ok lib (min_total c) r" "max_ok lib (max_total c) r"
      "date_ok lib ge_date (from_date c) r" "date_ok lib le_date (to_date c) r"
    by (simp_all add: row_selected_def)
  from assms(1) have ne: "name \<noteq> ''Total''" "name \<noteq> ''Date''"
    by (auto simp: field_columns_def)
  have cat: "cat_ok v n (r(name \<mapsto> x))" if "cat_ok v n r" for v n
  proof (cases "n = name")
    case True
    with that assms(3) show ?thesis by (simp add: cat_ok_update(2) empty_cell_def)
  next
    case False
    with that show ?thesis by (simp add: cat_ok_update(1))
  qed
  show ?thesis
    unfolding row_selected_def
    by (simp add: c [THEN cat] b bound_ok_update ne)
qed

lemma field_columns_other:
  "name \<in> set field_columns \<Longrightarrow> name \<noteq> ''Date'' \<and> name \<noteq> ''Total'' \<and> name \<noteq> ''Quantity''"
  by (auto simp: field_columns_def)

lemma no_precise_row:
  assumes "name \<in> set field_columns"
  shows "\<exists>r. typed_row r \<and> (row_selected lib c r \<longleftrightarrow> \<not> empty_cell name r)"
proof -
  let ?r = "[''Date'' \<mapsto> NaT, ''Total'' \<mapsto> Num 0, ''Quantity'' \<mapsto> Num 0, name \<mapsto> Str []]"
  from field_columns_other [OF assms]
  have t: "typed_row (?r(name \<mapsto> x))" for x
    by (auto simp: typed_row_def cell_of_def dated_def number_def)
  have r: "?r(name \<mapsto> Str []) = ?r" by simp
  have e: "empty_cell name ?r" "\<not> empty_cell name (?r(name \<mapsto> Str ''x''))"
    by (simp_all add: empty_cell_def cell_of_def)
  show ?thesis
  proof (cases "row_selected lib c ?r")
    case True
    from row_selected_update [OF assms True e(1)]
    have "row_selected lib c (?r(name \<mapsto> Str ''x''))" .
    with t [of "Str ''x''"] e(2) show ?thesis by blast
  next
    case False
    with t [of "Str []"] e(1) r show ?thesis by metis
  qed
qed

lemma no_precise_view:
  assumes "name \<in> set field_columns"
  shows "\<exists>df. well_typed df \<and> set filter_columns \<subseteq> set (columns df) \<and> length (rows df) = 1
           \<and> apply_filters lib c df \<noteq> Inr (select_rows (empty_cell name) df)"
proof -
  from no_precise_row [OF assms] obtain r where
    t: "typed_row r" and d: "row_selected lib c r \<longleftrightarrow> \<not> empty_cell name r"
    by blast
  let ?df = "\<lparr>columns = filter_columns @ [''Quantity''], rows = [r]\<rparr>"
  have w: "well_typed ?df"
    using t by (simp add: well_typed_def typed_row_def filter_columns_def)
  have "apply_filters lib c ?df \<noteq> Inr (select_rows (empty_cell name) ?df)"
  proof
    assume "apply_filters lib c ?df = Inr (select_rows (empty_cell name) ?df)"
    from apply_filters_sound [OF this]
    have "rows (select_rows (empty_cell name) ?df) = rows (select_rows (row_selected lib c) ?df)"
      by simp
    with d show False by (simp add: select_rows_def split: if_splits)
  qed
  with w show ?thesis
    by (intro exI [of _ ?df]) auto
qed

text \<open>
  C9. For each of the six categorical fields, the empty string as filter value gives the
  same answer, from \<^verbatim>\<open>filter_data\<close> and from \<^verbatim>\<open>get_filtered_stats\<close>, as an absent value, and so
  does \<^verbatim>\<open>"All"\<close>. Consequently no criteria select precisely the rows whose cell in the column
  of such a field is the empty string: whatever the criteria, some well-typed row is
  selected without having the empty string there, or has it without being selected, and
  on the one-row table of that row, which has every column that a filter reads, the view
  is not the set of rows with the empty string. Whenever a returned page holds a row with
  the empty string in the column of a field, the value given for that field is absent,
  empty or \<^verbatim>\<open>"All"\<close>.
\<close>

theorem empty_string_is_pass_all:
  "(v \<in> pass_all_values \<longrightarrow>
      filter_data lib s (c\<lparr>status := v\<rparr>) skip limit = filter_data lib s (c\<lparr>status := None\<rparr>) skip limit
      \<and> get_filtered_stats lib s (c\<lparr>status := v\<rparr>) = get_filtered_stats lib s (c\<lparr>status := None\<rparr>)
      \<and> filter_data lib s (c\<lparr>delivery_status := v\<rparr>) skip limit
          = filter_data lib s (c\<lparr>delivery_status := None\<rparr>) skip limit
      \<and> get_filtered_stats lib s (c\<lparr>delivery_status := v\<rparr>)
          = get_filtered_stats lib s (c\<lparr>delivery_status := None\<rparr>)
      \<and> filter_data lib s (c\<lparr>country := v\<rparr>) skip limit = filter_data lib s (c\<lparr>country := None\<rparr>) skip limit
      \<and> get_filtered_stats lib s (c\<lparr>country := v\<rparr>) = get_filtered_stats lib s (c\<lparr>country := None\<rparr>)
      \<and> filter_data lib s (c\<lparr>province := v\<rparr>) skip limit = filter_data lib s (c\<lparr>province := None\<rparr>) skip limit
      \<and> get_filtered_stats lib s (c\<lparr>province := v\<rparr>) = get_filtered_stats lib s (c\<lparr>province := None\<rparr>)
      \<and> filter_data lib s (c\<lparr>state := v\<rparr>) skip limit = filter_data lib s (c\<lparr>state := None\<rparr>) skip limit
      \<and> get_filtered_stats lib s (c\<lparr>state := v\<rparr>) = get_filtered_stats lib s (c\<lparr>state := None\<rparr>)
      \<and> filter_data lib s (c\<lparr>payment_method := v\<rparr>) skip limit
          = filter_data lib s (c\<lparr>payment_method := None\<rparr>) skip limit
      \<and> get_filtered_stats lib s (c\<lparr>payment_method := v\<rparr>)
          = get_filtered_stats lib s (c\<lparr>payment_method := None\<rparr>))
   \<and> (name \<in> set field_columns \<longrightarrow>
        \<not> (\<forall>r. row_selected lib c r \<longleftrightarrow> empty_cell name r)
        \<and> (\<exists>r. typed_row r \<and> (row_selected lib c r \<longleftrightarrow> \<not> empty_cell name r))
        \<and> (\<exists>df. well_typed df \<and> set filter_columns \<subseteq> set (columns df)
              \<and> length (rows df) = 1
              \<and> apply_filters lib c df \<noteq> Inr (select_rows (empty_cell name) df)))
   \<and> (fst (filter_data lib s c skip limit) = Inr page \<and> r \<in> set page \<longrightarrow>
        ((''Status'', Str []) \<in> set r \<longrightarrow> status c \<in> pass_all_values)
        \<and> ((''Deliver Status'', Str []) \<in> set r \<longrightarrow> delivery_status c \<in> pass_all_values)
        \<and> ((''Shipping Country'', Str []) \<in> set r \<longrightarrow> country c \<in> pass_all_values)
        \<and> ((''Shipping Province'', Str []) \<in> set r \<longrightarrow> province c \<in> pass_all_values)
        \<and> ((''State'', Str []) \<in> set r \<longrightarrow> state c \<in> pass_all_values)
        \<and> ((''Payment Method'', Str []) \<in> set r \<longrightarrow> payment_method c \<in> pass_all_values))"
proof -
  have same: "v \<in> pass_all_values \<Longrightarrow>
      (filter_data lib s (c\<lparr>status := v\<rparr>) skip limit = filter_data lib s (c\<lparr>status := None\<rparr>) skip limit
      \<and> get_filtered_stats lib s (c\<lparr>status := v\<rparr>) = get_filtered_stats lib s (c\<lparr>status := None\<rparr>))
      \<and> (filter_data lib s (c\<lparr>delivery_status := v\<rparr>) skip limit
          = filter_data lib s (c\<lparr>delivery_status := None\<rparr>) skip limit
      \<and> get_filtered_stats lib s (c\<lparr>delivery_status := v\<rparr>)
          = get_filtered_stats lib s (c\<lparr>delivery_status := None\<rparr>))
      \<and> (filter_data lib s (c\<lparr>country := v\<rparr>) skip limit = filter_data lib s (c\<lparr>country := None\<rparr>) skip limit
      \<and> get_filtered_stats lib s (c\<lparr>country := v\<rparr>) = get_filtered_stats lib s (c\<lparr>country := None\<rparr>))
      \<and> (filter_data lib s (c\<lparr>province := v\<rparr>) skip limit = filter_data lib s (c\<lparr>province := None\<rparr>) skip limit
      \<and> get_filtered_stats lib s (c\<lparr>province := v\<rparr>) = get_filtered_stats lib s (c\<lparr>province := None\<rparr>))
      \<and> (filter_data lib s (c\<lparr>state := v\<rparr>) skip limit = filter_data lib s (c\<lparr>state := None\<rparr>) skip limit
      \<and> get_filtered_stats lib s (c\<lparr>state := v\<rparr>) = get_filtered_stats lib s (c\<lparr>state := None\<rparr>))
      \<and> (filter_data lib s (c\<lparr>payment_method := v\<rparr>) skip limit
          = filter_data lib s (c\<lparr>payment_method := None\<rparr>) skip limit
      \<and> get_filtered_stats lib s (c\<lparr>payment_method := v\<rparr>)
          = get_filtered_stats lib s (c\<lparr>payment_method := None\<rparr>))"
    by (intro conjI filter_results_cong)
       (simp_all add: apply_filters_def filter_eq_pass filter_eq_pass [of None])
  have precise: "name \<in> set field_columns \<Longrightarrow>
        \<not> (\<forall>r. row_selected lib c r \<longleftrightarrow> empty_cell name r)
        \<and> (\<exists>r. typed_row r \<and> (row_selected lib c r \<longleftrightarrow> \<not> empty_cell name r))
        \<and> (\<exists>df. well_typed df \<and> set filter_columns \<subseteq> set (columns df)
              \<and> length (rows df) = 1
              \<and> apply_filters lib c df \<noteq> Inr (select_rows (empty_cell name) df))"
    using no_precise_row [of name lib c] no_precise_view [of name lib c] by blast
  have sel: "fst (filter_data lib s c skip limit) = Inr page \<Longrightarrow> r \<in> set page \<Longrightarrow>
        ((''Status'', Str []) \<in> set r \<longrightarrow> status c \<in> pass_all_values)
        \<and> ((''Deliver Status'', Str []) \<in> set r \<longrightarrow> delivery_status c \<in> pass_all_values)
        \<and> ((''Shipping Country'', Str []) \<in> set r \<longrightarrow> country c \<in> pass_all_values)
        \<and> ((''Shipping Province'', Str []) \<in> set r \<longrightarrow> province c \<in> pass_all_values)
        \<and> ((''State'', Str []) \<in> set r \<longrightarrow> state c \<in> pass_all_values)
        \<and> ((''Payment Method'', Str []) \<in> set r \<longrightarrow> payment_method c \<in> pass_all_values)"
    by (intro conjI impI; erule (2) empty_cell_in_page) (simp_all add: row_selected_def)
  show ?thesis using same precise sel by blast
qed

lemma demo_page_unfiltered: "fst (filter_data demo_lib demo_sales no_criteria 0 100) = Inr demo_page"
proof -
  have nf: "no_filter no_criteria"
    by (simp add: no_filter_def absent_or_All_def no_criteria_def)
  have "apply_filters demo_lib no_criteria (app_state_data demo_sales) = Inr (app_state_data demo_sales)"
    using apply_filters_complete [of no_criteria "app_state_data demo_sales" demo_lib]
      no_filter_selects_all [OF nf]
    by (simp add: select_rows_True)
  then show ?thesis
    by (simp add: filter_data_fst demo_sales_quantity raises_def demo_sales_columns)
       (simp add: demo_sales_def iloc_def py_slice_def to_dict_records_def demo_page_def
          cell_of_def)
qed

theorem empty_string_is_pass_all_witness:
  "Some [] \<in> pass_all_values
   \<and> filter_data demo_lib demo_sales (no_criteria\<lparr>status := Some []\<rparr>) 0 100
       = filter_data demo_lib demo_sales (no_criteria\<lparr>status := None\<rparr>) 0 100
   \<and> ''Status'' \<in> set field_columns
   \<and> \<not> (\<forall>r. row_selected demo_lib no_criteria r \<longleftrightarrow> empty_cell ''Status'' r)
   \<and> fst (filter_data demo_lib demo_sales no_criteria 0 100) = Inr demo_page
   \<and> demo_page ! 1 \<in> set demo_page
   \<and> (''Status'', Str []) \<in> set (demo_page ! 1)
   \<and> status no_criteria \<in> pass_all_values"
proof -
  have v: "Some [] \<in> pass_all_values" by (simp add: pass_all_values_def)
  have f: "''Status'' \<in> set field_columns" by (simp add: field_columns_def)
  have m: "demo_page ! 1 \<in> set demo_page" "(''Status'', Str []) \<in> set (demo_page ! 1)"
    by (simp_all add: demo_page_def)
  from empty_string_is_pass_all [where v = "Some []" and s = demo_sales and c = no_criteria
      and skip = 0 and limit = 100 and page = demo_page and r = "demo_page ! 1"
      and lib = demo_lib and name = "''Status''"] v f demo_page_unfiltered m
  have "filter_data demo_lib demo_sales (no_criteria\<lparr>status := Some []\<rparr>) 0 100
          = filter_data demo_lib demo_sales (no_criteria\<lparr>status := None\<rparr>) 0 100"
    and "\<not> (\<forall>r. row_selected demo_lib no_criteria r \<longleftrightarrow> empty_cell ''Status'' r)"
    and "status no_criteria \<in> pass_all_values"
    by blast+
  then show ?thesis using v f m demo_page_unfiltered by simp
qed

subsection \<open>The statistics of a table\<close>

lemma monthly_copy:
  "deref (setitem (snd (copy s AppStateData)) (fst (copy s AppStateData)) ''Month'' vals)
     (fst (copy s AppStateData)) = setitem_frame (app_state_data s) ''Month'' vals"
  by (simp add: copy_def setitem_def)

lemma if_pair_fst: "fst (if b then (x, y) else (u, v)) = (if b then x else u)"
  by simp

lemma if_Inr: "(if b then Inr x else Inr y) = Inr (if b then x else y)"
  by simp

lemma month_frame_eq:
  "setitem_frame df ''Month''
     (map strftime_Y_m
        (map (to_datetime_coerce (\<lambda>x. map_option wall_time (to_datetime_infer lib x)))
           (column df ''Date'')))
   = month_frame lib df"
  by (simp add: month_frame_def month_label_def [abs_def] column_def o_def)

lemma monthly_tables_Inr:
  "''Total'' \<in> set (columns df) \<Longrightarrow>
   monthly_tables lib (month_frame lib df) =
     Inr (sort_values_Month
            (groupby_month (column (month_frame lib df) ''Month'') (column (month_frame lib df) ''Total'')
               (group_sum lib)),
          sort_values_Month
            (groupby_month (column (month_frame lib df) ''Month'') (column (month_frame lib df) ''Total'')
               length),
          sort_values_Month
            (groupby_month (column (month_frame lib df) ''Month'') (column (month_frame lib df) ''Total'')
               (\<lambda>g. (round2 lib (group_mean lib g), series_count g))))"
  by (simp add: monthly_tables_def month_frame_def setitem_frame_def getitem_def Let_def)

text \<open>
  On a table with the \<^verbatim>\<open>Total\<close> and \<^verbatim>\<open>Quantity\<close> columns \<^verbatim>\<open>get_stats\<close> answers HTTP 500
  when \<^verbatim>\<open>int\<close> of the sum of the quantities raises, and returns its bundle otherwise.
\<close>

lemma get_stats_total:
  assumes "''Total'' \<in> set (columns (app_state_data s))"
    and "''Quantity'' \<in> set (columns (app_state_data s))"
  shows "(raises (quantity_int lib (app_state_data s)) \<longrightarrow>
            fst (get_stats lib s) = Inl (HTTPException 500))
     \<and> (\<forall>q. quantity_int lib (app_state_data s) = Inr q \<longrightarrow>
          (\<exists>k. fst (get_stats lib s) = Inr k
     \<and> total_records k = length (rows (app_state_data s))
     \<and> total_sales k = py_float lib (series_sum lib (column (app_state_data s) ''Total''))
     \<and> total_quantity k = q
     \<and> avg_order_value k =
          py_float lib
            (if 0 < length (rows (app_state_data s))
             then truediv lib (series_sum lib (column (app_state_data s) ''Total''))
                    (length (rows (app_state_data s)))
             else Int64 0)
     \<and> (''Date'' \<in> set (columns (app_state_data s)) \<longrightarrow>
          monthly_tables lib (month_frame lib (app_state_data s))
            = Inr (monthly_sales k, monthly_orders k, monthly_avg_values k))
     \<and> (''Date'' \<notin> set (columns (app_state_data s)) \<longrightarrow>
          monthly_sales k = [] \<and> monthly_orders k = [] \<and> monthly_avg_values k = [])))"
proof (cases "quantity_int lib (app_state_data s)")
  case (Inl e)
  then have q: "py_int (series_sum lib (column (app_state_data s) ''Quantity'')) = Inl e"
    by (simp add: quantity_int_def)
  have "fst (get_stats lib s) = Inl (HTTPException 500)"
  proof (cases "''Date'' \<in> set (columns (app_state_data s))")
    case True
    show ?thesis
      unfolding get_stats_def Let_def case_prod_beta fst_case_sum if_pair_fst
      by (simp only: True assms if_True deref.simps monthly_copy month_frame_eq
          monthly_tables_Inr [OF assms(1)] getitem_def and_then_Inr_eq and_then_Inl_eq q if_Inr
          fst_conv snd_conv sum.case prod.case)
  next
    case False
    show ?thesis
      unfolding get_stats_def Let_def case_prod_beta fst_case_sum if_pair_fst
      by (simp only: False assms if_True if_False deref.simps getitem_def and_then_Inr_eq
          and_then_Inl_eq q if_Inr fst_conv snd_conv sum.case prod.case)
  qed
  with Inl show ?thesis by (simp add: raises_def)
next
  case (Inr q0)
  then have q: "py_int (series_sum lib (column (app_state_data s) ''Quantity'')) = Inr q0"
    by (simp add: quantity_int_def)
  have "\<exists>k. fst (get_stats lib s) = Inr k
     \<and> total_records k = length (rows (app_state_data s))
     \<and> total_sales k = py_float lib (series_sum lib (column (app_state_data s) ''Total''))
     \<and> total_quantity k = q0
     \<and> avg_order_value k =
          py_float lib
            (if 0 < length (rows (app_state_data s))
             then truediv lib (series_sum lib (column (app_state_data s) ''Total''))
                    (length (rows (app_state_data s)))
             else Int64 0)
     \<and> (''Date'' \<in> set (columns (app_state_data s)) \<longrightarrow>
          monthly_tables lib (month_frame lib (app_state_data s))
            = Inr (monthly_sales k, monthly_orders k, monthly_avg_values k))
     \<and> (''Date'' \<notin> set (columns (app_state_data s)) \<longrightarrow>
          monthly_sales k = [] \<and> monthly_orders k = [] \<and> monthly_avg_values k = [])"
  proof (cases "''Date'' \<in> set (columns (app_state_data s))")
    case True
    show ?thesis
      unfolding get_stats_def Let_def case_prod_beta fst_case_sum if_pair_fst
      apply (simp only: True assms if_True deref.simps monthly_copy month_frame_eq
          monthly_tables_Inr [OF assms(1)] getitem_def and_then_Inr_eq and_then_Inl_eq q if_Inr
          fst_conv snd_conv sum.case prod.case)
      apply (simp split del: if_split)
      done
  next
    case False
    show ?thesis
      unfolding get_stats_def Let_def case_prod_beta fst_case_sum if_pair_fst
      apply (simp only: False assms if_True if_False deref.simps getitem_def and_then_Inr_eq
          and_then_Inl_eq q if_Inr fst_conv snd_conv sum.case prod.case)
      apply (simp split del: if_split)
      done
  qed
  with Inr show ?thesis by (simp add: raises_def)
qed

lemma get_stats_no_columns:
  assumes "columns (app_state_data s) = []" "rows (app_state_data s) = []"
  shows "\<exists>k. fst (get_stats lib s) = Inr k
     \<and> total_records k = 0 \<and> total_sales k = Num 0 \<and> total_quantity k = 0
     \<and> avg_order_value k = Num 0
     \<and> monthly_sales k = [] \<and> monthly_orders k = [] \<and> monthly_avg_values k = []"
  unfolding get_stats_def Let_def case_prod_beta fst_case_sum if_pair_fst
  apply (simp only: assms deref.simps list.set empty_iff if_False
        and_then_Inr_eq fst_conv snd_conv sum.case prod.case)
  apply (simp add: py_int_def)
  done

lemma get_stats_empty:
  assumes "app_state_data s = DataFrame_empty"
  shows "quantity_int lib (app_state_data s) = Inr 0"
    and "\<exists>k. fst (get_stats lib s) = Inr k
     \<and> total_records k = 0 \<and> total_sales k = Num 0 \<and> total_quantity k = 0
     \<and> avg_order_value k = Num 0
     \<and> monthly_sales k = [] \<and> monthly_orders k = [] \<and> monthly_avg_values k = []"
  using assms get_stats_no_columns [of s lib]
  by (simp_all add: DataFrame_empty_def quantity_int_no_rows)

subsection \<open>The key figures of a loaded table\<close>

lemma demo_csv_loadable: "loadable (Some demo_csv)"
  by (simp add: loadable_def demo_csv_def)

lemma demo_csv_columns:
  "column demo_csv ''Total'' = [Str ''12.5'', Str ''abc'', Str ''10'']"
  "column demo_csv ''Quantity'' = [Num (3 / 2), Num 1, Num 2]"
  "length (rows demo_csv) = 3"
  by (simp_all add: demo_csv_def column_def cell_of_def)

lemma demo_csv_coerced:
  "coerced demo_lib [Str ''12.5'', Str ''abc'', Str ''10''] = [Num (25 / 2), Num 0, Num 10]"
  "coerced demo_lib [Num (3 / 2), Num 1, Num 2] = [Num (3 / 2), Num 1, Num 2]"
  by (simp_all add: coerced_def to_numeric_coerce_def number_def demo_numeral_def numeric_def
        fillna_0_def isna_def)

lemma demo_csv_loaded:
  "length (rows (app_state_data (startup_db_client demo_lib (Some demo_csv)))) = 3"
  "column (app_state_data (startup_db_client demo_lib (Some demo_csv))) ''Total''
     = [Num (25 / 2), Num 0, Num 10]"
  "column (app_state_data (startup_db_client demo_lib (Some demo_csv))) ''Quantity''
     = [Num (3 / 2), Num 1, Num 2]"
proof -
  let ?df = "app_state_data (startup_db_client demo_lib (Some demo_csv))"
  from loaded_frame [of "Some demo_csv" demo_lib, unfolded option.sel] demo_csv_loadable
  have "length (rows ?df) = length (rows demo_csv)"
    and "column ?df ''Total'' = coerced demo_lib (column demo_csv ''Total'')"
    and "column ?df ''Quantity'' = coerced demo_lib (column demo_csv ''Quantity'')"
    by blast+
  then show "length (rows ?df) = 3" "column ?df ''Total'' = [Num (25 / 2), Num 0, Num 10]"
    "column ?df ''Quantity'' = [Num (3 / 2), Num 1, Num 2]"
    by (simp_all only: demo_csv_columns demo_csv_coerced)
qed

lemma demo_sums:
  "series_sum demo_lib [Num (25 / 2), Num 0, Num 10] = Num (45 / 2)"
  "series_sum demo_lib [Num (3 / 2), Num 1, Num 2] = Num (9 / 2)"
  by (simp_all add: series_sum_def isna_def is_int64_def demo_sum_def rat_of_def numeric_def
        number_def)

lemma demo_csv_quantity:
  "quantity_int demo_lib (app_state_data (startup_db_client demo_lib (Some demo_csv))) = Inr 4"
  by (simp add: quantity_int_def demo_csv_loaded demo_sums py_int_def toward_zero_def
        floor_eq_iff)





subsection \<open>The monthly series\<close>

lemma column_month_frame:
  "column (month_frame lib df) ''Month'' = map (month_label lib) (rows df)"
  "column (month_frame lib df) ''Total'' = column df ''Total''"
  unfolding month_frame_def
  by (subst column_setitem_frame; simp)+

lemma group_of_map:
  "group_of (map f rs) (map g rs) k = map g (filter (\<lambda>r. f r = k) rs)"
  by (induction rs) (auto simp: group_of_def)

lemma sorted_month_keys: "sorted (month_keys keys) \<and> distinct (month_keys keys)"
  by (simp add: month_keys_def)

lemma set_month_keys: "set (month_keys keys) = {m. Str m \<in> set keys}"
  by (auto simp: month_keys_def split: cell.splits)

lemma fst_groupby_month: "map fst (groupby_month keys vals agg) = month_keys keys"
  by (simp add: groupby_month_def o_def)

lemma sort_values_Month_groupby:
  "sort_values_Month (groupby_month keys vals agg) = groupby_month keys vals agg"
  unfolding sort_values_Month_def
  by (rule sort_key_id_if_sorted) (simp add: fst_groupby_month sorted_month_keys)

lemma monthly_tables_groups:
  assumes "''Total'' \<in> set (columns df)"
  shows "monthly_tables lib (month_frame lib df) =
     Inr (groupby_month (map (month_label lib) (rows df)) (column df ''Total'') (group_sum lib),
          groupby_month (map (month_label lib) (rows df)) (column df ''Total'') length,
          groupby_month (map (month_label lib) (rows df)) (column df ''Total'')
            (\<lambda>g. (round2 lib (group_mean lib g), series_count g)))"
  by (simp add: monthly_tables_Inr [OF assms] column_month_frame sort_values_Month_groupby)

lemma null_date_label: "null_date r \<Longrightarrow> month_label lib r = NaN"
  by (simp add: null_date_def month_label_def to_datetime_coerce_def strftime_Y_m_def)

lemma month_keys_dated:
  "month_keys (map (month_label lib) (filter (\<lambda>r. \<not> null_date r) rs)) = month_keys (map (month_label lib) rs)"
proof -
  have "concat (map (\<lambda>c. case c of Str m \<Rightarrow> [m] | _ \<Rightarrow> [])
          (map (month_label lib) (filter (\<lambda>r. \<not> null_date r) rs)))
        = concat (map (\<lambda>c. case c of Str m \<Rightarrow> [m] | _ \<Rightarrow> []) (map (month_label lib) rs))"
    by (induction rs) (auto simp: null_date_label)
  then show ?thesis by (simp add: month_keys_def)
qed

lemma groupby_month_dated:
  "groupby_month (map (month_label lib) (filter (\<lambda>r. \<not> null_date r) rs))
     (map g (filter (\<lambda>r. \<not> null_date r) rs)) agg
   = groupby_month (map (month_label lib) rs) (map g rs) agg"
proof -
  have "filter (\<lambda>r. month_label lib r = Str m) (filter (\<lambda>r. \<not> null_date r) rs)
        = filter (\<lambda>r. month_label lib r = Str m) rs" for m
    by (induction rs) (auto simp: null_date_label)
  then show ?thesis
    by (simp add: groupby_month_def group_of_map month_keys_dated)
qed

text \<open>
  The three monthly tables of a table are those of the table without its null-date rows.
\<close>

lemma monthly_tables_dated:
  assumes "''Total'' \<in> set (columns df)"
  shows "monthly_tables lib (month_frame lib (without_null_dates df))
         = monthly_tables lib (month_frame lib df)"
proof -
  have t: "''Total'' \<in> set (columns (without_null_dates df))"
    using assms by (simp add: without_null_dates_def)
  show ?thesis
    unfolding monthly_tables_groups [OF assms] monthly_tables_groups [OF t]
    by (simp add: without_null_dates_def select_rows_def column_def groupby_month_dated)
qed

lemma count_by_keys:
  "distinct ks \<Longrightarrow>
   sum_list (map (\<lambda>k. length (filter (\<lambda>x. f x = k) xs)) ks)
     = length (filter (\<lambda>x. f x \<in> set ks) xs)"
proof (induction ks)
  case Nil
  then show ?case by simp
next
  case (Cons k ks)
  have "length (filter (\<lambda>x. f x = k \<or> f x \<in> set ks) xs)
        = length (filter (\<lambda>x. f x = k) xs) + length (filter (\<lambda>x. f x \<in> set ks) xs)"
    using Cons.prems by (induction xs) auto
  with Cons show ?case by simp
qed

lemma monthly_counts_total:
  "sum_list (map snd (groupby_month (map (month_label lib) rs) (map g rs) length))
     = length (filter (\<lambda>r. \<exists>m. month_label lib r = Str m) rs)"
proof -
  have inj: "distinct (map Str (month_keys (map (month_label lib) rs)))"
    by (simp add: distinct_map sorted_month_keys inj_on_def)
  have "sum_list (map snd (groupby_month (map (month_label lib) rs) (map g rs) length))
        = sum_list (map (\<lambda>k. length (filter (\<lambda>r. month_label lib r = k) rs))
                     (map Str (month_keys (map (month_label lib) rs))))"
    by (simp add: groupby_month_def group_of_map o_def)
  also have "\<dots> = length (filter (\<lambda>r. month_label lib r \<in> set (map Str (month_keys (map (month_label lib) rs)))) rs)"
    by (rule count_by_keys [OF inj])
  also have "\<dots> = length (filter (\<lambda>r. \<exists>m. month_label lib r = Str m) rs)"
  proof -
    have "month_label lib r \<in> set (map Str (month_keys (map (month_label lib) rs)))
          \<longleftrightarrow> (\<exists>m. month_label lib r = Str m)" if "r \<in> set rs" for r
    proof
      assume "month_label lib r \<in> set (map Str (month_keys (map (month_label lib) rs)))"
      then show "\<exists>m. month_label lib r = Str m" by auto
    next
      assume "\<exists>m. month_label lib r = Str m"
      then obtain m where m: "month_label lib r = Str m" ..
      with that have "Str m \<in> set (map (month_label lib) rs)" by force
      then have "m \<in> set (month_keys (map (month_label lib) rs))" by (simp add: set_month_keys)
      with m show "month_label lib r \<in> set (map Str (month_keys (map (month_label lib) rs)))" by simp
    qed
    then have "filter (\<lambda>r. month_label lib r \<in> set (map Str (month_keys (map (month_label lib) rs)))) rs
               = filter (\<lambda>r. \<exists>m. month_label lib r = Str m) rs"
      by (rule filter_cong [OF refl])
    then show ?thesis by (simp only:)
  qed
  finally show ?thesis .
qed

lemma dated_label:
  assumes "dated (cell_of r ''Date'')"
  shows "(\<exists>m. month_label lib r = Str m) \<longleftrightarrow> \<not> null_date r"
  using assms
  by (cases "cell_of r ''Date''")
     (auto simp: dated_def null_date_def month_label_def to_datetime_coerce_def strftime_Y_m_def)

lemma loaded_dates:
  assumes "loadable csv" "r \<in> set (rows (app_state_data (startup_db_client lib csv)))"
  shows "dated (cell_of r ''Date'')"
proof -
  from assms(2) have "cell_of r ''Date'' \<in> set (column (app_state_data (startup_db_client lib csv)) ''Date'')"
    by (simp add: column_def)
  moreover from loaded_frame [of csv lib] assms(1)
  have "column (app_state_data (startup_db_client lib csv)) ''Date''
          = map loaded_date (column (the csv) ''Date'')"
    by blast
  ultimately obtain c where "cell_of r ''Date'' = loaded_date c"
    by auto
  with loaded_date_cases [of c] show ?thesis by simp
qed

lemma sorted_groupby_month:
  "sorted (map fst (groupby_month keys vals agg)) \<and> distinct (map fst (groupby_month keys vals agg))"
  by (simp add: fst_groupby_month sorted_month_keys)

text \<open>
  C4. For every dataset as \<^verbatim>\<open>startup_db_client\<close> leaves it, whenever \<^verbatim>\<open>get_stats\<close> returns a
  bundle (it does unless \<^verbatim>\<open>int\<close> of the sum of the quantities raises, and then it answers
  HTTP 500), the three monthly sequences of the bundle are the three monthly tables
  computed from the dataset with its null-date rows removed, so those rows enter none of
  the monthly aggregates, and the monthly row counts add up to the number of rows with a
  date; \<open>total_records\<close> still counts every row. Each of the three sequences is sorted
  ascending by its month label, without repeated labels.
\<close>

theorem loaded_monthly_series:
  assumes "app_state_data s = app_state_data (startup_db_client lib csv)"
  shows "(raises (quantity_int lib (app_state_data s)) \<longrightarrow>
            fst (get_stats lib s) = Inl (HTTPException 500))
     \<and> (\<forall>q. quantity_int lib (app_state_data s) = Inr q \<longrightarrow>
          (\<exists>k. fst (get_stats lib s) = Inr k
             \<and> total_records k = length (rows (app_state_data s))
             \<and> (loadable csv \<longrightarrow>
                  monthly_tables lib (month_frame lib (without_null_dates (app_state_data s)))
                    = Inr (monthly_sales k, monthly_orders k, monthly_avg_values k))
             \<and> (\<not> loadable csv \<longrightarrow>
                  monthly_sales k = [] \<and> monthly_orders k = [] \<and> monthly_avg_values k = [])
             \<and> sum_list (map snd (monthly_orders k))
                 = length (filter (\<lambda>r. \<not> null_date r) (rows (app_state_data s)))
             \<and> sorted (map fst (monthly_sales k)) \<and> distinct (map fst (monthly_sales k))
             \<and> sorted (map fst (monthly_orders k)) \<and> distinct (map fst (monthly_orders k))
             \<and> sorted (map fst (monthly_avg_values k))
             \<and> distinct (map fst (monthly_avg_values k))))"
proof (cases "loadable csv")
  case True
  let ?df = "app_state_data s"
  have cols: "''Total'' \<in> set (columns ?df)" "''Quantity'' \<in> set (columns ?df)"
    "''Date'' \<in> set (columns ?df)"
    unfolding assms by (rule loaded_columns [OF True])+
  from get_stats_total [OF cols(1,2), of lib] cols(3)
  have fails: "raises (quantity_int lib ?df) \<longrightarrow> fst (get_stats lib s) = Inl (HTTPException 500)"
    and returns: "\<And>q. quantity_int lib ?df = Inr q \<Longrightarrow>
      \<exists>k. fst (get_stats lib s) = Inr k
        \<and> total_records k = length (rows ?df)
        \<and> monthly_tables lib (month_frame lib ?df)
            = Inr (monthly_sales k, monthly_orders k, monthly_avg_values k)"
    by blast+
  have "\<And>r. r \<in> set (rows ?df) \<Longrightarrow> (\<exists>m. month_label lib r = Str m) \<longleftrightarrow> \<not> null_date r"
    using loaded_dates [OF True, of _ lib] assms dated_label by simp
  then have dated: "filter (\<lambda>r. \<exists>m. month_label lib r = Str m) (rows ?df)
             = filter (\<lambda>r. \<not> null_date r) (rows ?df)"
    by (rule filter_cong [OF refl])
  show ?thesis
  proof (intro conjI allI impI)
    assume "raises (quantity_int lib ?df)"
    with fails show "fst (get_stats lib s) = Inl (HTTPException 500)" by simp
  next
    fix q
    assume "quantity_int lib ?df = Inr q"
    from returns [OF this] obtain k where
      k: "fst (get_stats lib s) = Inr k" "total_records k = length (rows ?df)"
        "monthly_tables lib (month_frame lib ?df)
           = Inr (monthly_sales k, monthly_orders k, monthly_avg_values k)"
      by blast
    from k(3) have groups:
      "monthly_sales k = groupby_month (map (month_label lib) (rows ?df)) (column ?df ''Total'') (group_sum lib)"
      "monthly_orders k = groupby_month (map (month_label lib) (rows ?df)) (column ?df ''Total'') length"
      "monthly_avg_values k = groupby_month (map (month_label lib) (rows ?df)) (column ?df ''Total'')
            (\<lambda>g. (round2 lib (group_mean lib g), series_count g))"
      unfolding monthly_tables_groups [OF cols(1)] by simp_all
    have counts: "sum_list (map snd (monthly_orders k))
         = length (filter (\<lambda>r. \<not> null_date r) (rows ?df))"
      unfolding groups(2) column_def monthly_counts_total dated ..
    have tables: "monthly_tables lib (month_frame lib (without_null_dates ?df))
                    = Inr (monthly_sales k, monthly_orders k, monthly_avg_values k)"
      unfolding monthly_tables_dated [OF cols(1)] by (rule k(3))
    show "\<exists>k. fst (get_stats lib s) = Inr k
             \<and> total_records k = length (rows ?df)
             \<and> (loadable csv \<longrightarrow>
                  monthly_tables lib (month_frame lib (without_null_dates ?df))
                    = Inr (monthly_sales k, monthly_orders k, monthly_avg_values k))
             \<and> (\<not> loadable csv \<longrightarrow>
                  monthly_sales k = [] \<and> monthly_orders k = [] \<and> monthly_avg_values k = [])
             \<and> sum_list (map snd (monthly_orders k))
                 = length (filter (\<lambda>r. \<not> null_date r) (rows ?df))
             \<and> sorted (map fst (monthly_sales k)) \<and> distinct (map fst (monthly_sales k))
             \<and> sorted (map fst (monthly_orders k)) \<and> distinct (map fst (monthly_orders k))
             \<and> sorted (map fst (monthly_avg_values k))
             \<and> distinct (map fst (monthly_avg_values k))"
      apply (rule exI [of _ k])
      apply (simp only: k(1,2) tables counts True simp_thms)
      apply (simp only: groups sorted_groupby_month simp_thms)
      done
  qed
next
  case False
  have e: "app_state_data s = DataFrame_empty"
    unfolding assms by (rule not_loaded [OF False])
  from get_stats_empty [OF e, of lib] obtain k where
    q: "quantity_int lib (app_state_data s) = Inr 0"
    and k: "fst (get_stats lib s) = Inr k" "total_records k = 0"
       "monthly_sales k = []" "monthly_orders k = []" "monthly_avg_values k = []"
    by blast
  show ?thesis
    using False by (simp add: q k raises_def) (simp add: e DataFrame_empty_def)
qed

lemma demo_csv_dates:
  "map loaded_date (column demo_csv ''Date'')
     = [TS (2023, 1, 15, 0), NaT, TS (2023, 2, 3, 0)]"
  by (simp add: demo_csv_def column_def cell_of_def loaded_date_def to_datetime_coerce_def
        strptime_d_m_Y_def day_token_def month_token_def year_token_def is_digit_def
        token_val_def digits_val_def digit_val_def Timestamp_def days_in_month_def)

lemma count_dated:
  "length (filter (\<lambda>r. \<not> null_date r) (rows df))
     = length (filter (\<lambda>c. c \<noteq> NaT) (column df ''Date''))"
  by (simp add: column_def null_date_def filter_map o_def)

theorem loaded_monthly_series_witness:
  "quantity_int demo_lib (app_state_data (startup_db_client demo_lib (Some demo_csv))) = Inr 4
   \<and> (\<exists>k. fst (get_stats demo_lib (startup_db_client demo_lib (Some demo_csv))) = Inr k
     \<and> total_records k = 3
     \<and> sum_list (map snd (monthly_orders k)) = 2
     \<and> sorted (map fst (monthly_sales k))
     \<and> sorted (map fst (monthly_orders k))
     \<and> sorted (map fst (monthly_avg_values k)))
   \<and> raises (quantity_int demo_lib
               (app_state_data (startup_db_client demo_lib (Some demo_csv_overflow))))
   \<and> fst (get_stats demo_lib (startup_db_client demo_lib (Some demo_csv_overflow)))
       = Inl (HTTPException 500)"
proof -
  let ?s = "startup_db_client demo_lib (Some demo_csv)"
  let ?o = "startup_db_client demo_lib (Some demo_csv_overflow)"
  from loaded_frame [of "Some demo_csv" demo_lib, unfolded option.sel] demo_csv_loadable
  have "column (app_state_data ?s) ''Date'' = map loaded_date (column demo_csv ''Date'')"
    by blast
  then have dates: "column (app_state_data ?s) ''Date'' = [TS (2023, 1, 15, 0), NaT, TS (2023, 2, 3, 0)]"
    by (simp only: demo_csv_dates)
  have dated: "length (filter (\<lambda>r. \<not> null_date r) (rows (app_state_data ?s))) = 2"
    by (simp add: count_dated dates)
  from loaded_monthly_series [OF refl, where lib = demo_lib and csv = "Some demo_csv"]
    demo_csv_quantity
  obtain k where "fst (get_stats demo_lib ?s) = Inr k"
    "total_records k = length (rows (app_state_data ?s))"
    "sum_list (map snd (monthly_orders k))
       = length (filter (\<lambda>r. \<not> null_date r) (rows (app_state_data ?s)))"
    "sorted (map fst (monthly_sales k))" "sorted (map fst (monthly_orders k))"
    "sorted (map fst (monthly_avg_values k))"
    by blast
  then have a: "\<exists>k. fst (get_stats demo_lib ?s) = Inr k
     \<and> total_records k = 3
     \<and> sum_list (map snd (monthly_orders k)) = 2
     \<and> sorted (map fst (monthly_sales k))
     \<and> sorted (map fst (monthly_orders k))
     \<and> sorted (map fst (monthly_avg_values k))"
    by (simp add: demo_csv_loaded dated)
  have r: "raises (quantity_int demo_lib (app_state_data ?o))"
    by (simp add: overflow_raises raises_def)
  with loaded_monthly_series [OF refl, where lib = demo_lib and csv = "Some demo_csv_overflow"]
  have b: "fst (get_stats demo_lib ?o) = Inl (HTTPException 500)"
    by blast
  show ?thesis
    using a r b demo_csv_quantity by blast
qed

subsection \<open>Date parsing at load time and at filter time\<close>

lemma list3_cases:
  obtains a b c where "ts = [a, b, c]" | "length ts \<noteq> 3"
  by (cases ts; cases "tl ts"; cases "tl (tl ts)"; cases "tl (tl (tl ts))") auto

lemma case3_other:
  "length ts \<noteq> 3 \<Longrightarrow> (case ts of [a, b, c] \<Rightarrow> f a b c | _ \<Rightarrow> z) = z"
  by (cases ts; cases "tl ts"; cases "tl (tl ts)"; cases "tl (tl (tl ts))") auto

lemma strptime_3:
  "split_on CHR ''/'' x = [a, b, c] \<Longrightarrow>
   strptime_d_m_Y x =
     (if day_token a \<and> month_token b \<and> year_token c
      then Timestamp (token_val c) (token_val b) (token_val a) else None)"
  by (simp add: strptime_d_m_Y_def)

lemma strptime_other: "length (split_on CHR ''/'' x) \<noteq> 3 \<Longrightarrow> strptime_d_m_Y x = None"
  by (simp add: strptime_d_m_Y_def case3_other)

lemma infer_3:
  "split_on CHR ''/'' x = [a, b, c] \<Longrightarrow>
   known_date x =
     (if num_token a \<and> num_token b \<and> year_token c
      then (if 12 < token_val a then Timestamp (token_val c) (token_val b) (token_val a)
            else Timestamp (token_val c) (token_val a) (token_val b))
      else None)"
  by (simp add: known_date_def)

lemma infer_other: "length (split_on CHR ''/'' x) \<noteq> 3 \<Longrightarrow> known_date x = parse_iso x"
  by (simp add: known_date_def case3_other)

lemma parse_iso_3:
  "split_on CHR ''-'' x = [a, b, c] \<Longrightarrow>
   parse_iso x =
     (if year_token a \<and> length b = 2 \<and> list_all is_digit b \<and> length c = 2 \<and> list_all is_digit c
      then Timestamp (token_val a) (token_val b) (token_val c) else None)"
  by (simp add: parse_iso_def)

lemma parse_iso_other: "length (split_on CHR ''-'' x) \<noteq> 3 \<Longrightarrow> parse_iso x = None"
  by (simp add: parse_iso_def case3_other)

lemma Timestamp_Some: "Timestamp y m d = Some t \<Longrightarrow> t = (y, m, d, 0)"
  unfolding Timestamp_def by (metis option.inject option.distinct(1))

lemma not_digit [simp]: "\<not> is_digit CHR '' ''" "\<not> is_digit CHR ''/''" "\<not> is_digit CHR ''-''"
  by (simp_all add: is_digit_def)

lemma digit_chars [simp]:
  "is_digit CHR ''0''" "is_digit CHR ''1''" "is_digit CHR ''2''" "is_digit CHR ''3''"
  by (simp_all add: is_digit_def)

lemma digit_val_le: "is_digit c \<Longrightarrow> digit_val c \<le> 9"
  by (auto simp: is_digit_def digit_val_def)

lemma day_token_single: "day_token [a] \<Longrightarrow> is_digit a"
  by (simp add: day_token_def)

lemma day_token_pair:
  "day_token [a, b] \<Longrightarrow> (is_digit a \<or> a = CHR '' '') \<and> is_digit b"
  unfolding day_token_def list.case
  by (elim disjE conjE) simp_all

lemma day_token_length: "day_token t \<Longrightarrow> length t = 1 \<or> length t = 2"
  by (cases t; cases "tl t"; cases "tl (tl t)") (simp_all add: day_token_def)

lemma day_token_cases:
  assumes "day_token t"
  obtains a where "t = [a]" "is_digit a"
    | a b where "t = [a, b]" "is_digit a" "is_digit b"
    | b where "t = [CHR '' '', b]" "is_digit b"
proof -
  from day_token_length [OF assms] consider a where "t = [a]" | a b where "t = [a, b]"
    by (cases t; cases "tl t") auto
  then show ?thesis
  proof cases
    case 1
    with assms day_token_single that(1) show ?thesis by blast
  next
    case 2
    with assms day_token_pair [of a b] that(2,3) show ?thesis by blast
  qed
qed

lemma day_token_gt12:
  assumes "day_token t" "12 < token_val t"
  shows "num_token t"
  using assms(1)
proof (cases rule: day_token_cases)
  case (3 b)
  with digit_val_le [of b] assms(2) show ?thesis
    by (simp add: token_val_def digits_val_def)
qed (simp_all add: num_token_def)

lemma day_token_num:
  assumes "day_token t" "hd t \<noteq> CHR '' ''"
  shows "num_token t"
  using assms(1)
proof (cases rule: day_token_cases)
  case (3 b)
  with assms(2) show ?thesis by simp
qed (simp_all add: num_token_def)

lemma month_token_num:
  assumes "month_token t"
  shows "num_token t"
proof -
  have len: "length t = 1 \<or> length t = 2"
    using assms by (cases t; cases "tl t"; cases "tl (tl t)") (simp_all add: month_token_def)
  then consider a where "t = [a]" | a b where "t = [a, b]"
    by (cases t; cases "tl t") auto
  then show ?thesis
  proof cases
    case 1
    with assms show ?thesis by (simp add: month_token_def num_token_def)
  next
    case 2
    with assms have "is_digit a \<and> is_digit b"
      unfolding month_token_def 2 list.case
      by (elim disjE conjE) simp_all
    with 2 show ?thesis by (simp add: num_token_def)
  qed
qed

lemma hd_split_on:
  assumes "split_on d x = t # ts" "t \<noteq> []"
  shows "hd t = hd x"
  using assms by (cases x) (auto split: if_splits list.splits)

lemma split_on_absent: "d \<notin> set x \<Longrightarrow> split_on d x = [x]"
  by (induction x) auto

lemma set_split_on: "c \<in> set x \<Longrightarrow> c = d \<or> (\<exists>t \<in> set (split_on d x). c \<in> set t)"
proof (induction x)
  case Nil
  then show ?case by simp
next
  case (Cons a x)
  show ?case
  proof (cases "a = d")
    case True
    with Cons show ?thesis by auto
  next
    case False
    have "split_on d x \<noteq> []" by (induction x) (auto split: list.splits)
    then obtain w ws where s: "split_on d x = w # ws"
      by (cases "split_on d x") auto
    with False have "split_on d (a # x) = (a # w) # ws" by simp
    with Cons s show ?thesis by auto
  qed
qed

lemma agree_when_day_exceeds_12:
  assumes "strptime_d_m_Y x = Some (y, m, d, 0)" "12 < d"
  shows "known_date x = Some (y, m, d, 0)"
proof (cases "split_on CHR ''/'' x" rule: list3_cases)
  case (1 a b c)
  with assms(1) have tok: "day_token a" "month_token b" "year_token c"
    and ts: "Timestamp (token_val c) (token_val b) (token_val a) = Some (y, m, d, 0)"
    by (simp_all add: strptime_3 split: if_splits)
  from Timestamp_Some [OF ts] have v: "y = token_val c" "m = token_val b" "d = token_val a"
    by simp_all
  from tok(1) assms(2) v have "num_token a" by (simp add: day_token_gt12)
  with tok ts assms(2) v 1 show ?thesis
    by (simp add: infer_3 month_token_num)
next
  case 2
  with assms(1) show ?thesis by (simp add: strptime_other)
qed

lemma day_token_nonempty: "day_token t \<Longrightarrow> t \<noteq> []"
  by (auto simp: day_token_def)

lemma month_first_otherwise:
  assumes "strptime_d_m_Y x = Some (y, m, d, 0)" "d \<le> 12" "hd x \<noteq> CHR '' ''"
  shows "known_date x = Timestamp y d m"
proof (cases "split_on CHR ''/'' x" rule: list3_cases)
  case (1 a b c)
  with assms(1) have tok: "day_token a" "month_token b" "year_token c"
    and ts: "Timestamp (token_val c) (token_val b) (token_val a) = Some (y, m, d, 0)"
    by (simp_all add: strptime_3 split: if_splits)
  from Timestamp_Some [OF ts] have v: "y = token_val c" "m = token_val b" "d = token_val a"
    by simp_all
  from hd_split_on [OF 1 day_token_nonempty [OF tok(1)]] assms(3) have "hd a \<noteq> CHR '' ''"
    by simp
  with tok(1) have "num_token a" by (rule day_token_num)
  with tok assms(2) v 1 show ?thesis
    by (simp add: infer_3 month_token_num)
next
  case 2
  with assms(1) show ?thesis by (simp add: strptime_other)
qed

lemma digits_no_slash: "list_all is_digit t \<Longrightarrow> CHR ''/'' \<notin> set t"
  by (auto simp: list_all_iff)

lemma iso_only_at_filter_time:
  assumes "parse_iso x = Some t"
  shows "known_date x = Some t \<and> strptime_d_m_Y x = None"
proof (cases "split_on CHR ''-'' x" rule: list3_cases)
  case (1 a b c)
  with assms have tok: "list_all is_digit a" "list_all is_digit b" "list_all is_digit c"
    by (simp_all add: parse_iso_3 year_token_def split: if_splits)
  have "CHR ''/'' \<notin> set x"
  proof
    assume "CHR ''/'' \<in> set x"
    from set_split_on [OF this, of "CHR ''-''"] 1
    have "CHR ''/'' \<in> set a \<or> CHR ''/'' \<in> set b \<or> CHR ''/'' \<in> set c"
      by auto
    with tok digits_no_slash show False by blast
  qed
  then have "length (split_on CHR ''/'' x) \<noteq> 3" by (simp add: split_on_absent)
  with assms show ?thesis by (simp add: infer_other strptime_other)
next
  case 2
  with assms show ?thesis by (simp add: parse_iso_other)
qed

lemma known_date_infer: "known_date x = Some t \<Longrightarrow> to_datetime_infer lib x = Some (Naive t)"
  by (simp add: to_datetime_infer_def)

lemmas parse_eval = strptime_d_m_Y_def known_date_def parse_iso_def day_token_def
  month_token_def year_token_def num_token_def is_digit_def token_val_def digits_val_def
  digit_val_def Timestamp_def days_in_month_def is_leap_def

lemma parse_examples:
  "strptime_d_m_Y ''2023-01-05'' = None"
  "known_date ''2023-01-05'' = Some (2023, 1, 5, 0)"
  "strptime_d_m_Y ''05/01/2023'' = Some (2023, 1, 5, 0)"
  "known_date ''05/01/2023'' = Some (2023, 5, 1, 0)"
  "strptime_d_m_Y ''13/01/2023'' = Some (2023, 1, 13, 0)"
  "parse_iso ''2023-01-05'' = Some (2023, 1, 5, 0)"
  "Timestamp 2023 5 1 = Some (2023, 5, 1, 0)"
  by (simp_all add: parse_eval)

lemma infer_examples:
  "to_datetime_infer lib ''2023-01-05'' = Some (Naive (2023, 1, 5, 0))"
  "to_datetime_infer lib ''05/01/2023'' = Some (Naive (2023, 5, 1, 0))"
  by (simp_all add: known_date_infer parse_examples)

text \<open>
  A date filter whose bound the library reads as a timestamp without a time zone keeps
  the rows that compare with that timestamp.
\<close>

lemma filter_date_naive:
  assumes "to_datetime_infer lib x = Some (Naive t)" "''Date'' \<in> set (columns df)"
  shows "filter_from lib (Some x) df = Inr (select_rows (\<lambda>r. ge_date t (cell_of r ''Date'')) df)"
    and "filter_to lib (Some x) df = Inr (select_rows (\<lambda>r. le_date t (cell_of r ''Date'')) df)"
proof -
  from assms(1) have ne: "x \<noteq> []"
    by (auto simp: to_datetime_infer_def known_date_def parse_iso_def)
  from assms ne
  show "filter_from lib (Some x) df = Inr (select_rows (\<lambda>r. ge_date t (cell_of r ''Date'')) df)"
    and "filter_to lib (Some x) df = Inr (select_rows (\<lambda>r. le_date t (cell_of r ''Date'')) df)"
    by (simp_all add: filter_from_Inr filter_to_Inr truthy_def aware_def date_ok_def)
qed

text \<open>The date that loading stores in a row is the load-format reading of the raw cell.\<close>

lemma loaded_date_cell:
  assumes "loadable csv" "i < length (rows (the csv))"
  shows "cell_of (rows (app_state_data (startup_db_client lib csv)) ! i) ''Date''
           = to_datetime_coerce strptime_d_m_Y (cell_of (rows (the csv) ! i) ''Date'')"
proof -
  let ?df = "app_state_data (startup_db_client lib csv)"
  from loaded_frame [of csv lib] assms(1)
  have l: "length (rows ?df) = length (rows (the csv))"
    and c: "column ?df ''Date'' = map loaded_date (column (the csv) ''Date'')"
    by blast+
  from assms(2) l have "column ?df ''Date'' ! i = cell_of (rows ?df ! i) ''Date''"
    by (simp add: column_def)
  moreover from assms(2) have "map loaded_date (column (the csv) ''Date'') ! i
      = loaded_date (cell_of (rows (the csv) ! i) ''Date'')"
    by (simp add: column_def)
  ultimately show ?thesis using c by (simp add: loaded_date_def)
qed

lemma jan5_loaded:
  "columns (app_state_data (startup_db_client demo_lib (Some demo_csv_jan5)))
     = [''Date'', ''Total'', ''Quantity'', ''Status'', ''State'']"
  "length (rows (app_state_data (startup_db_client demo_lib (Some demo_csv_jan5)))) = 1"
  "column (app_state_data (startup_db_client demo_lib (Some demo_csv_jan5))) ''Date''
     = [TS (2023, 1, 5, 0)]"
  "column (app_state_data (startup_db_client demo_lib (Some demo_csv_jan5))) ''Quantity''
     = [Num 1]"
proof -
  let ?df = "app_state_data (startup_db_client demo_lib (Some demo_csv_jan5))"
  have l: "loadable (Some demo_csv_jan5)"
    by (simp add: loadable_def demo_csv_jan5_def)
  have raw: "columns demo_csv_jan5 = [''Date'', ''Total'', ''Quantity'', ''Status'', ''State'']"
    "length (rows demo_csv_jan5) = 1"
    "map loaded_date (column demo_csv_jan5 ''Date'') = [TS (2023, 1, 5, 0)]"
    "coerced demo_lib (column demo_csv_jan5 ''Quantity'') = [Num 1]"
    by (simp_all add: demo_csv_jan5_def column_def cell_of_def loaded_date_def
          to_datetime_coerce_def parse_examples coerced_def to_numeric_coerce_def number_def
          fillna_0_def isna_def)
  from loaded_frame [of "Some demo_csv_jan5" demo_lib, unfolded option.sel] l
  have "columns ?df = columns demo_csv_jan5"
    and "length (rows ?df) = length (rows demo_csv_jan5)"
    and "column ?df ''Date'' = map loaded_date (column demo_csv_jan5 ''Date'')"
    and "column ?df ''Quantity'' = coerced demo_lib (column demo_csv_jan5 ''Quantity'')"
    by blast+
  then show "columns ?df = [''Date'', ''Total'', ''Quantity'', ''Status'', ''State'']"
    "length (rows ?df) = 1" "column ?df ''Date'' = [TS (2023, 1, 5, 0)]"
    "column ?df ''Quantity'' = [Num 1]"
    by (simp_all only: raw)
qed

text \<open>
  C3, as stated, fails. Loading parses with \<^verbatim>\<open>format='%d/%m/%Y'\<close>, the filters call
  \<^verbatim>\<open>pd.to_datetime\<close> without a format. The ISO string \<^verbatim>\<open>2023-01-05\<close> is null at load time and
  5 January 2023 at filter time; \<^verbatim>\<open>05/01/2023\<close> is 5 January at load time and 1 May at
  filter time. So a table whose only row is dated \<^verbatim>\<open>05/01/2023\<close>, filtered with both bounds
  \<^verbatim>\<open>05/01/2023\<close>, gives \<open>total_count = 0\<close>.
\<close>

theorem date_format_counterexample:
  "to_datetime_coerce strptime_d_m_Y (Str ''2023-01-05'') = NaT
   \<and> to_datetime_infer demo_lib ''2023-01-05'' = Some (Naive (2023, 1, 5, 0))
   \<and> to_datetime_coerce strptime_d_m_Y (Str ''05/01/2023'') = TS (2023, 1, 5, 0)
   \<and> to_datetime_infer demo_lib ''05/01/2023'' = Some (Naive (2023, 5, 1, 0))
   \<and> column (app_state_data (startup_db_client demo_lib (Some demo_csv_jan5))) ''Date''
       = [TS (2023, 1, 5, 0)]
   \<and> map_sum id total_count
        (fst (get_filtered_stats demo_lib (startup_db_client demo_lib (Some demo_csv_jan5))
                jan5_bounds)) = Inr 0"
proof -
  let ?s = "startup_db_client demo_lib (Some demo_csv_jan5)"
  have d: "dates_only jan5_bounds" "from_date jan5_bounds = Some ''05/01/2023''"
    "to_date jan5_bounds = Some ''05/01/2023''"
    by (simp_all add: jan5_bounds_def dates_only_def no_criteria_def)
  have none: "\<not> row_selected demo_lib jan5_bounds r" if "r \<in> set (rows (app_state_data ?s))" for r
  proof -
    from that have "cell_of r ''Date'' \<in> set (column (app_state_data ?s) ''Date'')"
      by (simp add: column_def)
    then have "cell_of r ''Date'' = TS (2023, 1, 5, 0)"
      by (simp add: jan5_loaded)
    then show ?thesis
      by (simp add: dates_only_criteria d date_ok_def infer_examples ge_date_def)
  qed
  then have sel: "filter (row_selected demo_lib jan5_bounds) (rows (app_state_data ?s)) = []"
    by (simp add: filter_empty_conv)
  have view: "apply_filters demo_lib jan5_bounds (app_state_data ?s)
                = Inr (app_state_data ?s\<lparr>rows := []\<rparr>)"
    using apply_filters_complete [of jan5_bounds "app_state_data ?s" demo_lib]
    by (simp add: dates_only_criteria d jan5_loaded aware_bound_def aware_def infer_examples
          select_rows_def sel)
  have "map_sum id total_count (fst (get_filtered_stats demo_lib ?s jan5_bounds)) = Inr 0"
    by (simp add: get_filtered_stats_fst view quantity_int_no_rows jan5_loaded)
  then show ?thesis
    by (simp add: to_datetime_coerce_def parse_examples infer_examples jan5_loaded)
qed

text \<open>
  C3, amended. Filter-time parsing of a date bound does not use the load-time format: the
  filters infer the format of the string. Loading stores, for a raw date string, the
  timestamp that the fixed day/month/year format reads in it, or null. A filter with that
  same string as bound compares the dates with the same timestamp when the string is a
  day/month/year date whose day exceeds 12; when its day is at most 12 (and not
  space-padded) the filter reads it month first and compares with the date that has day
  and month exchanged; and an ISO year-month-day string, which is null at load time, is a
  bound that the filter compares with.
\<close>

theorem filter_parsing_vs_load_parsing:
  "(loadable csv \<and> i < length (rows (the csv))
      \<and> cell_of (rows (the csv) ! i) ''Date'' = Str x \<longrightarrow>
        cell_of (rows (app_state_data (startup_db_client lib csv)) ! i) ''Date''
          = (case strptime_d_m_Y x of Some t \<Rightarrow> TS t | None \<Rightarrow> NaT))
   \<and> (''Date'' \<in> set (columns df) \<and> strptime_d_m_Y x = Some (y, m, d, 0) \<and> 12 < d \<longrightarrow>
        filter_from lib (Some x) df
          = Inr (select_rows (\<lambda>r. ge_date (y, m, d, 0) (cell_of r ''Date'')) df)
        \<and> filter_to lib (Some x) df
            = Inr (select_rows (\<lambda>r. le_date (y, m, d, 0) (cell_of r ''Date'')) df))
   \<and> (''Date'' \<in> set (columns df) \<and> strptime_d_m_Y x = Some (y, m, d, 0) \<and> d \<le> 12
        \<and> hd x \<noteq> CHR '' '' \<and> Timestamp y d m = Some u \<longrightarrow>
        filter_from lib (Some x) df
          = Inr (select_rows (\<lambda>r. ge_date u (cell_of r ''Date'')) df)
        \<and> filter_to lib (Some x) df
            = Inr (select_rows (\<lambda>r. le_date u (cell_of r ''Date'')) df))
   \<and> (''Date'' \<in> set (columns df) \<and> parse_iso x = Some t \<longrightarrow>
        strptime_d_m_Y x = None
        \<and> filter_from lib (Some x) df
            = Inr (select_rows (\<lambda>r. ge_date t (cell_of r ''Date'')) df)
        \<and> filter_to lib (Some x) df
            = Inr (select_rows (\<lambda>r. le_date t (cell_of r ''Date'')) df))"
proof -
  have load: "loadable csv \<Longrightarrow> i < length (rows (the csv)) \<Longrightarrow>
      cell_of (rows (the csv) ! i) ''Date'' = Str x \<Longrightarrow>
        cell_of (rows (app_state_data (startup_db_client lib csv)) ! i) ''Date''
          = (case strptime_d_m_Y x of Some t \<Rightarrow> TS t | None \<Rightarrow> NaT)"
    by (simp add: loaded_date_cell to_datetime_coerce_def)
  have same: "strptime_d_m_Y x = Some (y, m, d, 0) \<Longrightarrow> 12 < d \<Longrightarrow>
      to_datetime_infer lib x = Some (Naive (y, m, d, 0))"
    by (rule known_date_infer) (rule agree_when_day_exceeds_12)
  have swapped: "strptime_d_m_Y x = Some (y, m, d, 0) \<Longrightarrow> d \<le> 12 \<Longrightarrow> hd x \<noteq> CHR '' '' \<Longrightarrow>
      Timestamp y d m = Some u \<Longrightarrow> to_datetime_infer lib x = Some (Naive u)"
    using month_first_otherwise [of x y m d] by (simp add: known_date_infer)
  have iso: "parse_iso x = Some t \<Longrightarrow>
      to_datetime_infer lib x = Some (Naive t) \<and> strptime_d_m_Y x = None"
    using iso_only_at_filter_time [of x t] by (simp add: known_date_infer)
  show ?thesis
    using load filter_date_naive [OF same] filter_date_naive [OF swapped]
      filter_date_naive [OF iso [THEN conjunct1]] iso [THEN conjunct2]
    by (intro conjI impI; elim conjE; simp)
qed

theorem filter_parsing_witness:
  "loadable (Some demo_csv_jan5) \<and> (0::nat) < length (rows (the (Some demo_csv_jan5)))
   \<and> cell_of (rows (the (Some demo_csv_jan5)) ! 0) ''Date'' = Str ''05/01/2023''
   \<and> cell_of (rows (app_state_data (startup_db_client demo_lib (Some demo_csv_jan5))) ! 0) ''Date''
       = TS (2023, 1, 5, 0)
   \<and> ''Date'' \<in> set (columns (app_state_data demo_sales))
   \<and> strptime_d_m_Y ''05/01/2023'' = Some (2023, 1, 5, 0)
   \<and> hd ''05/01/2023'' \<noteq> CHR '' ''
   \<and> Timestamp 2023 5 1 = Some (2023, 5, 1, 0)
   \<and> filter_from demo_lib (Some ''05/01/2023'') (app_state_data demo_sales)
       = Inr (select_rows (\<lambda>r. ge_date (2023, 5, 1, 0) (cell_of r ''Date''))
                (app_state_data demo_sales))
   \<and> strptime_d_m_Y ''13/01/2023'' = Some (2023, 1, 13, 0)
   \<and> filter_to demo_lib (Some ''13/01/2023'') (app_state_data demo_sales)
       = Inr (select_rows (\<lambda>r. le_date (2023, 1, 13, 0) (cell_of r ''Date''))
                (app_state_data demo_sales))
   \<and> parse_iso ''2023-01-05'' = Some (2023, 1, 5, 0)
   \<and> strptime_d_m_Y ''2023-01-05'' = None
   \<and> filter_from demo_lib (Some ''2023-01-05'') (app_state_data demo_sales)
       = Inr (select_rows (\<lambda>r. ge_date (2023, 1, 5, 0) (cell_of r ''Date''))
                (app_state_data demo_sales))"
proof -
  have l: "loadable (Some demo_csv_jan5)" "(0::nat) < length (rows (the (Some demo_csv_jan5)))"
    "cell_of (rows (the (Some demo_csv_jan5)) ! 0) ''Date'' = Str ''05/01/2023''"
    by (simp_all add: loadable_def demo_csv_jan5_def cell_of_def)
  have c: "''Date'' \<in> set (columns (app_state_data demo_sales))"
    by (simp add: demo_sales_columns)
  have h: "hd ''05/01/2023'' \<noteq> CHR '' ''" "(5::nat) \<le> 12" "(12::nat) < 13"
    by simp_all
  from filter_parsing_vs_load_parsing [where csv = "Some demo_csv_jan5" and i = 0
      and x = "''05/01/2023''" and lib = demo_lib and df = "app_state_data demo_sales"
      and y = 2023 and m = 1 and d = 5 and u = "(2023, 5, 1, 0)"]
    l c h parse_examples(3,7)
  have a: "cell_of (rows (app_state_data (startup_db_client demo_lib (Some demo_csv_jan5))) ! 0) ''Date''
       = TS (2023, 1, 5, 0)"
    and b: "filter_from demo_lib (Some ''05/01/2023'') (app_state_data demo_sales)
       = Inr (select_rows (\<lambda>r. ge_date (2023, 5, 1, 0) (cell_of r ''Date''))
                (app_state_data demo_sales))"
    by simp_all
  from filter_parsing_vs_load_parsing [where x = "''13/01/2023''" and lib = demo_lib
      and df = "app_state_data demo_sales" and y = 2023 and m = 1 and d = 13]
    c h parse_examples(5)
  have d: "filter_to demo_lib (Some ''13/01/2023'') (app_state_data demo_sales)
       = Inr (select_rows (\<lambda>r. le_date (2023, 1, 13, 0) (cell_of r ''Date''))
                (app_state_data demo_sales))"
    by simp
  from filter_parsing_vs_load_parsing [where x = "''2023-01-05''" and lib = demo_lib
      and df = "app_state_data demo_sales" and t = "(2023, 1, 5, 0)"]
    c parse_examples(6)
  have e: "strptime_d_m_Y ''2023-01-05'' = None"
    "filter_from demo_lib (Some ''2023-01-05'') (app_state_data demo_sales)
       = Inr (select_rows (\<lambda>r. ge_date (2023, 1, 5, 0) (cell_of r ''Date''))
                (app_state_data demo_sales))"
    by simp_all
  show ?thesis
    using l c h a b d e parse_examples(3,5,6,7) by simp
qed

subsection \<open>The most frequent SKUs\<close>

text \<open>
  \<^verbatim>\<open>value_counts().head(10)\<close>: whatever order the library's sort gives, at most ten entries
  are kept; they are in descending order of count when the sort orders by count; and the
  entries of equal count keep their first-seen order when the sort keeps equal counts in
  input order. Whether it does is the library's matter (its default sort kind is not a
  stable one), so the last property is stated under that assumption only.
\<close>

lemma case_sum_Inr_iff:
  "(case x of Inl e \<Rightarrow> Inl (f e) | Inr r \<Rightarrow> Inr r) = Inr k \<longleftrightarrow> x = Inr k"
  by (cases x) auto

lemma get_stats_top_skus:
  assumes "fst (get_stats lib s) = Inr k"
  shows "top_skus k =
           (if ''SKU'' \<in> set (columns (app_state_data s))
            then take 10 (sort_values lib (value_counts_table (column (app_state_data s) ''SKU'')))
            else [])"
  using assms
  unfolding get_stats_def Let_def case_prod_beta fst_case_sum case_sum_Inr_iff and_then_Inr
    deref.simps
  by (auto simp del: One_nat_def split del: if_split)

lemma top_skus_at_most_10:
  "fst (get_stats lib s) = Inr k \<Longrightarrow> length (top_skus k) \<le> 10"
  by (simp add: get_stats_top_skus)

lemma top_skus_descending:
  assumes "fst (get_stats lib s) = Inr k"
    and "\<And>xs. sorted_wrt (\<lambda>a b. snd b \<le> snd a) (sort_values lib xs)"
  shows "sorted_wrt (\<lambda>a b. snd b \<le> snd a) (top_skus k)"
  by (simp add: get_stats_top_skus [OF assms(1)] assms(2) sorted_wrt_take)

lemma filter_take:
  "filter P (take n xs) = take (length (filter P (take n xs))) (filter P xs)"
proof (induction xs arbitrary: n)
  case Nil
  then show ?case by simp
next
  case (Cons x xs)
  show ?case
  proof (cases n)
    case 0
    then show ?thesis by simp
  next
    case (Suc m)
    with Cons [of m] show ?thesis by simp
  qed
qed

lemma top_skus_ties_first_seen:
  assumes "fst (get_stats lib s) = Inr k"
    and "''SKU'' \<in> set (columns (app_state_data s))"
    and "\<And>xs c. filter (\<lambda>p. snd p = c) (sort_values lib xs) = filter (\<lambda>p. snd p = c) xs"
  shows "\<exists>n. filter (\<lambda>p. snd p = c) (top_skus k)
              = take n (filter (\<lambda>p. snd p = c)
                          (value_counts_table (column (app_state_data s) ''SKU'')))"
proof -
  let ?t = "value_counts_table (column (app_state_data s) ''SKU'')"
  have "top_skus k = take 10 (sort_values lib ?t)"
    using assms(2) by (simp add: get_stats_top_skus [OF assms(1)])
  then have "filter (\<lambda>p. snd p = c) (top_skus k)
      = take (length (filter (\<lambda>p. snd p = c) (take 10 (sort_values lib ?t))))
          (filter (\<lambda>p. snd p = c) (sort_values lib ?t))"
    using filter_take [of "\<lambda>p. snd p = c" 10 "sort_values lib ?t"] by simp
  then show ?thesis unfolding assms(3) by blast
qed

end
